theory Spec2Isabelle
  imports Main "HOL-Library.AList"
begin

section \<open>Zipdist: saving and rebuilding the attributes of a Python object\<close>

text \<open>
  The development embeds \<^verbatim>\<open>src/zipdist/zip.py\<close>: the class \<^verbatim>\<open>Zipdist\<close>, whose methods
  write the attributes of an object into a directory and a tar archive
  (\<^verbatim>\<open>_save\<close>), and read them back into another object (\<^verbatim>\<open>_build\<close>, \<^verbatim>\<open>_reload\<close> and the
  single-attribute reloads).

  Conventions of the embedding.
  \<^item> A method \<^verbatim>\<open>_name\<close> of the class is the constant \<open>name\<close> (an Isabelle name cannot start
    with an underscore).
  \<^item> The object is an instance of a plain subclass of \<^verbatim>\<open>Zipdist\<close> (no slots, properties
    or attribute hooks of its own). It is its instance dictionary: an association list from
    attribute names to Python values, in insertion order. \<^verbatim>\<open>setattr\<close> is a dictionary update
    except for the three names Python treats specially on such an object: \<^verbatim>\<open>__class__\<close> and
    \<^verbatim>\<open>__weakref__\<close> cannot be assigned a value of the model, and \<^verbatim>\<open>__dict__\<close> replaces the
    whole instance dictionary.
  \<^item> A method takes the world (the object, the file system, the warnings issued so far)
    and returns the exception it raised, if any, with the world as it left it: what a
    method changed before it raised stays changed. The constant of a method is its body;
    where the code calls \<^verbatim>\<open>self._name(...)\<close> the model looks the name up first (\<open>call\<close>): an
    entry of the instance dictionary under that name hides the method, and calling the
    value found there raises \<^verbatim>\<open>TypeError\<close>. No value of the model is callable or a class
    (a function stored in an attribute is outside the model).
  \<^item> Values are finite trees: no operation of the class mutates a nested list or
    dictionary in place, so sharing between values plays no role. A list or dictionary
    that contains itself, on which \<^verbatim>\<open>json.dump\<close> raises \<^verbatim>\<open>ValueError\<close>, is not a value of the
    model.
  \<^item> Integers are unbounded; \<^verbatim>\<open>json\<close> writes and reads an integer through its decimal
    text, which CPython refuses (\<^verbatim>\<open>ValueError\<close>) beyond 4300 digits, the default of
    \<^verbatim>\<open>sys.set_int_max_str_digits\<close>.
  \<^item> The file system is a set of directories and a map from paths, compared as written,
    to contents. Permissions, disk space and missing parent directories are outside the
    model. \<^verbatim>\<open>os.mkdir\<close> fails on the empty path and on the path of a plain file; the
    \<^verbatim>\<open>open(f, 'w')\<close> and \<^verbatim>\<open>tarfile.open(dest_tar, "w:gz")\<close> of the class fail
    (\<^verbatim>\<open>IsADirectoryError\<close>) on the path of a directory; the files of arrays and tables are
    written by the library, which is taken to succeed; a read fails when the file is not
    there or holds the wrong kind of content.
  \<^item> Every method is taken with \<^verbatim>\<open>verbose\<close> at its default, \<^verbatim>\<open>True\<close> (\<^verbatim>\<open>_reload\<close> cannot turn it
    off). The lines written to \<^verbatim>\<open>sys.stdout\<close> change no state; what remains of them in the
    model is the formatting of a value into such a line or into a warning, which raises
    \<^verbatim>\<open>ValueError\<close> when the value holds an integer beyond the 4300 digits (\<open>printable\<close>).
  \<^item> \<^verbatim>\<open>json\<close> is modelled at the level of documents (the text of a document is not);
    \<^verbatim>\<open>numpy\<close>, \<^verbatim>\<open>pandas\<close> and the behaviour of foreign objects are parameters (\<open>lib\<close>), so
    every theorem holds whatever they compute.
\<close>

subsection \<open>Python values, exceptions, JSON documents\<close>

datatype exn =
    KeyError | TypeError | AttributeError | AssertionError | IndexError | ValueError
  | OSError | FileExistsError | IsADirectoryError | ReadError | JSONDecodeError
  | OtherError string

text \<open>
  A float is identified with the text \<^verbatim>\<open>repr\<close> prints for it, which \<^verbatim>\<open>json\<close> writes and reads
  back to the same float. Dictionary keys are compared structurally. An array carries its
  elements, a table its column names and rows; \<open>PObject\<close> is any other object, which
  \<^verbatim>\<open>json\<close> cannot encode.
\<close>

datatype pyval =
    PNone | PBool bool | PInt int | PFloat string | PStr string
  | PList "pyval list" | PTuple "pyval list" | PDict "(pyval \<times> pyval) list"
  | PNdarray "pyval list" | PDataFrame "string list" "pyval list list"
  | PObject nat

datatype json =
    JNull | JBool bool | JInt int | JFloat string | JStr string
  | JArr "json list" | JObj "(string \<times> json) list"

text \<open>
  What a file holds: a complete JSON document, text written by something else, a tar
  archive (its file members by name, and its directory members), or the stump that
  \<^verbatim>\<open>json.dump\<close> leaves behind when it raises part-way.
\<close>

datatype fcontent =
    FJson json | FText string | FTar "string \<Rightarrow> fcontent option" "string set" | FPartial

datatype warning = CouldNotReloadComplex pyval pyval pyval | CouldNotReloadSimple pyval

record world =
  attrs :: "(string \<times> pyval) list"
  dirs :: "string set"
  files :: "string \<Rightarrow> fcontent option"
  warns :: "warning list"

text \<open>
  The library functions the class calls and the source does not define: \<^verbatim>\<open>str\<close> of a value
  that is not a string, the text \<^verbatim>\<open>ndarray.tofile\<close> and \<^verbatim>\<open>DataFrame.to_csv\<close> write, the
  readers \<^verbatim>\<open>np.genfromtxt\<close> and \<^verbatim>\<open>pd.read_csv\<close> (given the files and the file name, they
  return a value or raise), the JSON parser on text that \<^verbatim>\<open>json.dump\<close> did not write, and
  subscripting, \<^verbatim>\<open>.items()\<close> and \<^verbatim>\<open>.keys()\<close> on arrays, tables and foreign objects.
\<close>

record lib =
  py_str :: "pyval \<Rightarrow> string"
  nd_text :: "pyval list \<Rightarrow> string"
  df_text :: "string list \<Rightarrow> pyval list list \<Rightarrow> string"
  genfromtxt :: "(string \<Rightarrow> fcontent option) \<Rightarrow> pyval \<Rightarrow> exn + pyval"
  read_csv :: "(string \<Rightarrow> fcontent option) \<Rightarrow> pyval \<Rightarrow> exn + pyval"
  json_loads :: "string \<Rightarrow> exn + json"
  obj_getitem :: "pyval \<Rightarrow> pyval \<Rightarrow> exn + pyval"
  obj_setitem :: "pyval \<Rightarrow> pyval \<Rightarrow> pyval \<Rightarrow> exn + pyval"
  obj_items :: "pyval \<Rightarrow> exn + (pyval \<times> pyval) list"
  obj_keys :: "pyval \<Rightarrow> exn + pyval list"

subsection \<open>\<^verbatim>\<open>json.dump\<close> and \<^verbatim>\<open>json.load\<close>\<close>

fun digits :: "nat \<Rightarrow> string" where
  "digits n =
     (if n < 10 then [''0123456789'' ! n]
      else digits (n div 10) @ [''0123456789'' ! (n mod 10)])"

definition int_repr :: "int \<Rightarrow> string" where
  "int_repr i = (if i < 0 then CHR ''-'' # digits (nat (- i)) else digits (nat i))"

text \<open>
  An integer can be turned into decimal text, and decimal text into an integer, when it
  has at most 4300 digits.
\<close>

definition int_ok :: "int \<Rightarrow> bool" where
  "int_ok i = (length (digits (nat \<bar>i\<bar>)) \<le> 4300)"

text \<open>
  \<^verbatim>\<open>str(v)\<close>, and \<open>v\<close> formatted into an f-string, return: every integer in \<open>v\<close>, at any
  depth of lists, tuples and dictionaries (keys included), is within the limit. The text
  of an array, a table or a foreign object is the library's, taken not to raise.
\<close>

function printable :: "pyval \<Rightarrow> bool"
  and printable_list :: "pyval list \<Rightarrow> bool"
  and printable_items :: "(pyval \<times> pyval) list \<Rightarrow> bool" where
  "printable (PInt i) = int_ok i"
| "printable (PList xs) = printable_list xs"
| "printable (PTuple xs) = printable_list xs"
| "printable (PDict kvs) = printable_items kvs"
| "printable PNone = True"
| "printable (PBool b) = True"
| "printable (PFloat r) = True"
| "printable (PStr s) = True"
| "printable (PNdarray xs) = True"
| "printable (PDataFrame cs rs) = True"
| "printable (PObject n) = True"
| "printable_list [] = True"
| "printable_list (x # xs) = (printable x \<and> printable_list xs)"
| "printable_items [] = True"
| "printable_items ((k, v) # kvs) = (printable k \<and> printable v \<and> printable_items kvs)"
  by pat_completeness auto

termination
  by (relation "measure (case_sum size
        (case_sum (size_list size) (size_list (size_prod size size))))") auto

text \<open>
  The encoder turns a dictionary key that is a string, a float, a bool, \<^verbatim>\<open>None\<close> or an int
  into text; with \<^verbatim>\<open>skipkeys\<close> left false any other key raises \<^verbatim>\<open>TypeError\<close>. The \<^verbatim>\<open>default\<close>
  hook is not asked about keys.
\<close>

fun key_text :: "pyval \<Rightarrow> exn + string" where
  "key_text (PStr s) = Inr s"
| "key_text (PFloat r) = Inr r"
| "key_text (PBool b) = Inr (if b then ''true'' else ''false'')"
| "key_text PNone = Inr ''null''"
| "key_text (PInt i) = (if int_ok i then Inr (int_repr i) else Inl ValueError)"
| "key_text _ = Inl TypeError"

text \<open>
  \<open>to_json h v\<close> is the document \<^verbatim>\<open>json.dump\<close> writes for \<open>v\<close>. The flag \<open>h\<close> says whether
  the call passes \<^verbatim>\<open>default = lambda x : None\<close>: with it, a value the encoder does not know
  is replaced by what the hook returns, \<^verbatim>\<open>None\<close>, wherever it stands; without it, such a
  value raises \<^verbatim>\<open>TypeError\<close>. Nested objects may repeat a key (the keys \<^verbatim>\<open>1\<close> and \<^verbatim>\<open>"1"\<close> of
  one dictionary both become \<^verbatim>\<open>"1"\<close>).
\<close>

fun to_json :: "bool \<Rightarrow> pyval \<Rightarrow> exn + json"
  and to_json_list :: "bool \<Rightarrow> pyval list \<Rightarrow> exn + json list"
  and to_json_items :: "bool \<Rightarrow> (pyval \<times> pyval) list \<Rightarrow> exn + (string \<times> json) list" where
  "to_json h PNone = Inr JNull"
| "to_json h (PBool b) = Inr (JBool b)"
| "to_json h (PInt i) = (if int_ok i then Inr (JInt i) else Inl ValueError)"
| "to_json h (PFloat r) = Inr (JFloat r)"
| "to_json h (PStr s) = Inr (JStr s)"
| "to_json h (PList xs) =
     (case to_json_list h xs of Inl e \<Rightarrow> Inl e | Inr js \<Rightarrow> Inr (JArr js))"
| "to_json h (PTuple xs) =
     (case to_json_list h xs of Inl e \<Rightarrow> Inl e | Inr js \<Rightarrow> Inr (JArr js))"
| "to_json h (PDict kvs) =
     (case to_json_items h kvs of Inl e \<Rightarrow> Inl e | Inr ps \<Rightarrow> Inr (JObj ps))"
| "to_json h (PNdarray xs) = (if h then Inr JNull else Inl TypeError)"
| "to_json h (PDataFrame cs rs) = (if h then Inr JNull else Inl TypeError)"
| "to_json h (PObject n) = (if h then Inr JNull else Inl TypeError)"
| "to_json_list h [] = Inr []"
| "to_json_list h (x # xs) =
     (case to_json h x of Inl e \<Rightarrow> Inl e
      | Inr j \<Rightarrow> (case to_json_list h xs of Inl e \<Rightarrow> Inl e | Inr js \<Rightarrow> Inr (j # js)))"
| "to_json_items h [] = Inr []"
| "to_json_items h ((k, v) # kvs) =
     (case key_text k of Inl e \<Rightarrow> Inl e
      | Inr s \<Rightarrow>
         (case to_json h v of Inl e \<Rightarrow> Inl e
          | Inr j \<Rightarrow>
             (case to_json_items h kvs of Inl e \<Rightarrow> Inl e | Inr ps \<Rightarrow> Inr ((s, j) # ps))))"

text \<open>
  \<open>of_json\<close> is the value \<^verbatim>\<open>json.load\<close> returns for a document. An object becomes a
  dictionary filled pair by pair, so a repeated key keeps its first place and its last
  value.
\<close>

fun of_json :: "json \<Rightarrow> pyval"
  and of_json_list :: "json list \<Rightarrow> pyval list"
  and of_json_obj :: "(string \<times> json) list \<Rightarrow> (pyval \<times> pyval) list \<Rightarrow> (pyval \<times> pyval) list" where
  "of_json JNull = PNone"
| "of_json (JBool b) = PBool b"
| "of_json (JInt i) = PInt i"
| "of_json (JFloat r) = PFloat r"
| "of_json (JStr s) = PStr s"
| "of_json (JArr js) = PList (of_json_list js)"
| "of_json (JObj ps) = PDict (of_json_obj ps [])"
| "of_json_list [] = []"
| "of_json_list (j # js) = of_json j # of_json_list js"
| "of_json_obj [] d = d"
| "of_json_obj ((k, j) # ps) d = of_json_obj ps (AList.update (PStr k) (of_json j) d)"

text \<open>The documents the parser accepts: every integer in them is within the limit.\<close>

fun json_ok :: "json \<Rightarrow> bool"
  and json_ok_list :: "json list \<Rightarrow> bool"
  and json_ok_obj :: "(string \<times> json) list \<Rightarrow> bool" where
  "json_ok (JInt i) = int_ok i"
| "json_ok (JArr js) = json_ok_list js"
| "json_ok (JObj ps) = json_ok_obj ps"
| "json_ok j = True"
| "json_ok_list [] = True"
| "json_ok_list (j # js) = (json_ok j \<and> json_ok_list js)"
| "json_ok_obj [] = True"
| "json_ok_obj ((k, j) # ps) = (json_ok j \<and> json_ok_obj ps)"

definition parsed :: "json \<Rightarrow> exn + pyval" where
  "parsed j = (if json_ok j then Inr (of_json j) else Inl ValueError)"

definition json_load :: "lib \<Rightarrow> fcontent \<Rightarrow> exn + pyval" where
  "json_load L c =
     (case c of
        FJson j \<Rightarrow> parsed j
      | FText s \<Rightarrow> (case json_loads L s of Inl e \<Rightarrow> Inl e | Inr j \<Rightarrow> parsed j)
      | FTar m ds \<Rightarrow> Inl JSONDecodeError
      | FPartial \<Rightarrow> Inl JSONDecodeError)"

subsection \<open>Subscripting, \<^verbatim>\<open>.items()\<close>, \<^verbatim>\<open>.keys()\<close>\<close>

fun hashable :: "pyval \<Rightarrow> bool" where
  "hashable (PList xs) = False"
| "hashable (PDict kvs) = False"
| "hashable (PNdarray xs) = False"
| "hashable (PDataFrame cs rs) = False"
| "hashable (PTuple xs) = list_all hashable xs"
| "hashable v = True"

definition idx_of :: "pyval \<Rightarrow> int option" where
  "idx_of k = (case k of PInt i \<Rightarrow> Some i | PBool b \<Rightarrow> Some (if b then 1 else 0) | _ \<Rightarrow> None)"

text \<open>The position a sequence index stands for; an index below zero counts from the end.\<close>

definition seq_index :: "'a list \<Rightarrow> int \<Rightarrow> nat option" where
  "seq_index xs i =
     (if i < 0 then (if - i \<le> int (length xs) then Some (nat (int (length xs) + i)) else None)
      else (if i < int (length xs) then Some (nat i) else None))"

definition getitem :: "lib \<Rightarrow> pyval \<Rightarrow> pyval \<Rightarrow> exn + pyval" where
  "getitem L c k =
     (case c of
        PDict kvs \<Rightarrow>
          (if \<not> hashable k then Inl TypeError
           else (case map_of kvs k of None \<Rightarrow> Inl KeyError | Some v \<Rightarrow> Inr v))
      | PList xs \<Rightarrow>
          (case idx_of k of None \<Rightarrow> Inl TypeError
           | Some i \<Rightarrow> (case seq_index xs i of None \<Rightarrow> Inl IndexError | Some n \<Rightarrow> Inr (xs ! n)))
      | PTuple xs \<Rightarrow>
          (case idx_of k of None \<Rightarrow> Inl TypeError
           | Some i \<Rightarrow> (case seq_index xs i of None \<Rightarrow> Inl IndexError | Some n \<Rightarrow> Inr (xs ! n)))
      | PStr s \<Rightarrow>
          (case idx_of k of None \<Rightarrow> Inl TypeError
           | Some i \<Rightarrow> (case seq_index s i of None \<Rightarrow> Inl IndexError | Some n \<Rightarrow> Inr (PStr [s ! n])))
      | PNdarray xs \<Rightarrow> obj_getitem L c k
      | PDataFrame cs rs \<Rightarrow> obj_getitem L c k
      | PObject n \<Rightarrow> obj_getitem L c k
      | _ \<Rightarrow> Inl TypeError)"

definition setitem :: "lib \<Rightarrow> pyval \<Rightarrow> pyval \<Rightarrow> pyval \<Rightarrow> exn + pyval" where
  "setitem L c k v =
     (case c of
        PDict kvs \<Rightarrow>
          (if \<not> hashable k then Inl TypeError else Inr (PDict (AList.update k v kvs)))
      | PList xs \<Rightarrow>
          (case idx_of k of None \<Rightarrow> Inl TypeError
           | Some i \<Rightarrow>
              (case seq_index xs i of None \<Rightarrow> Inl IndexError | Some n \<Rightarrow> Inr (PList (xs[n := v]))))
      | PNdarray xs \<Rightarrow> obj_setitem L c k v
      | PDataFrame cs rs \<Rightarrow> obj_setitem L c k v
      | PObject n \<Rightarrow> obj_setitem L c k v
      | _ \<Rightarrow> Inl TypeError)"

definition items_of :: "lib \<Rightarrow> pyval \<Rightarrow> exn + (pyval \<times> pyval) list" where
  "items_of L c =
     (case c of
        PDict kvs \<Rightarrow> Inr kvs
      | PDataFrame cs rs \<Rightarrow> obj_items L c
      | PObject n \<Rightarrow> obj_items L c
      | _ \<Rightarrow> Inl AttributeError)"

definition keys_of :: "lib \<Rightarrow> pyval \<Rightarrow> exn + pyval list" where
  "keys_of L c =
     (case c of
        PDict kvs \<Rightarrow> Inr (map fst kvs)
      | PDataFrame cs rs \<Rightarrow> obj_keys L c
      | PObject n \<Rightarrow> obj_keys L c
      | _ \<Rightarrow> Inl AttributeError)"

subsection \<open>The object and the file system\<close>

definition getattr :: "world \<Rightarrow> string \<Rightarrow> pyval option" where
  "getattr w k = map_of (attrs w) k"

definition set_attr :: "string \<Rightarrow> pyval \<Rightarrow> world \<Rightarrow> world" where
  "set_attr k v w = w\<lparr>attrs := AList.update k v (attrs w)\<rparr>"

text \<open>\<^verbatim>\<open>self.__dict__\<close>, as a value.\<close>

definition dict_of_attrs :: "(string \<times> pyval) list \<Rightarrow> pyval" where
  "dict_of_attrs al = PDict (map (\<lambda>kv. (PStr (fst kv), snd kv)) al)"

text \<open>
  \<^verbatim>\<open>getattr(self, k)\<close> for a name \<open>k\<close>: the three special names are answered by the class
  (the instance dictionary itself, the class, and \<^verbatim>\<open>None\<close> when nothing refers weakly to
  the object), whatever the instance dictionary holds under them; any other name is
  looked up in the instance dictionary.
\<close>

definition pygetattr :: "world \<Rightarrow> string \<Rightarrow> pyval option" where
  "pygetattr w k =
     (if k = ''__dict__'' then Some (dict_of_attrs (attrs w))
      else if k = ''__class__'' then Some (PObject 0)
      else if k = ''__weakref__'' then Some PNone
      else getattr w k)"

text \<open>
  The pairs of a dictionary that can serve as an instance dictionary entry of the model:
  those under a string. (\<^verbatim>\<open>json.load\<close> returns dictionaries with string keys only.)
\<close>

fun str_items :: "(pyval \<times> pyval) list \<Rightarrow> (string \<times> pyval) list" where
  "str_items [] = []"
| "str_items ((PStr s, v) # kvs) = (s, v) # str_items kvs"
| "str_items (kv # kvs) = str_items kvs"

text \<open>
  \<^verbatim>\<open>setattr(self, k, v)\<close>. A name that is not a string raises \<^verbatim>\<open>TypeError\<close>. \<^verbatim>\<open>__class__\<close> takes
  a class only (\<^verbatim>\<open>TypeError\<close>), \<^verbatim>\<open>__weakref__\<close> is not writable (\<^verbatim>\<open>AttributeError\<close>), and
  \<^verbatim>\<open>__dict__\<close> takes a dictionary only (\<^verbatim>\<open>TypeError\<close>), which then is the instance
  dictionary. Any other name is a dictionary update.
\<close>

definition setattr :: "pyval \<Rightarrow> pyval \<Rightarrow> world \<Rightarrow> exn option \<times> world" where
  "setattr k v w =
     (case k of
        PStr s \<Rightarrow>
          (if s = ''__class__'' then (Some TypeError, w)
           else if s = ''__weakref__'' then (Some AttributeError, w)
           else if s = ''__dict__'' then
             (case v of
                PDict kvs \<Rightarrow> (None, w\<lparr>attrs := str_items kvs\<rparr>)
              | _ \<Rightarrow> (Some TypeError, w))
           else (None, set_attr s v w))
      | _ \<Rightarrow> (Some TypeError, w))"

text \<open>
  The call \<^verbatim>\<open>self.m(...)\<close> of a method \<open>m\<close> with body \<open>body\<close>: when the instance dictionary
  has an entry under \<open>m\<close>, that value is what gets called, and it is not callable.
\<close>

definition call ::
  "string \<Rightarrow> (world \<Rightarrow> exn option \<times> world) \<Rightarrow> world \<Rightarrow> exn option \<times> world" where
  "call m body w = (case getattr w m of None \<Rightarrow> body w | Some v \<Rightarrow> (Some TypeError, w))"

definition warn :: "warning \<Rightarrow> world \<Rightarrow> world" where
  "warn x w = w\<lparr>warns := warns w @ [x]\<rparr>"

definition write_file :: "string \<Rightarrow> fcontent \<Rightarrow> world \<Rightarrow> world" where
  "write_file p c w = w\<lparr>files := (files w)(p \<mapsto> c)\<rparr>"

definition seq ::
  "(world \<Rightarrow> exn option \<times> world) \<Rightarrow> (world \<Rightarrow> exn option \<times> world) \<Rightarrow> world \<Rightarrow> exn option \<times> world" where
  "seq f g w = (case f w of (None, w') \<Rightarrow> g w' | (Some e, w') \<Rightarrow> (Some e, w'))"

definition path_join :: "string \<Rightarrow> string \<Rightarrow> string" where
  "path_join a b =
     (if b \<noteq> [] \<and> hd b = CHR ''/'' then b
      else if a = [] \<or> last a = CHR ''/'' then a @ b
      else a @ ''/'' @ b)"

definition path_basename :: "string \<Rightarrow> string" where
  "path_basename p = rev (takeWhile (\<lambda>c. c \<noteq> CHR ''/'') (rev p))"

fun strip_prefix :: "string \<Rightarrow> string \<Rightarrow> string option" where
  "strip_prefix [] ys = Some ys"
| "strip_prefix (x # xs) [] = None"
| "strip_prefix (x # xs) (y # ys) = (if x = y then strip_prefix xs ys else None)"

definition str_of :: "lib \<Rightarrow> pyval \<Rightarrow> string" where
  "str_of L v = (case v of PStr s \<Rightarrow> s | _ \<Rightarrow> py_str L v)"

text \<open>
  The defaults of \<^verbatim>\<open>dest\<close> and \<^verbatim>\<open>dest_tar\<close>: \<^verbatim>\<open>str(self.name)\<close>, which raises \<^verbatim>\<open>AttributeError\<close>
  on an object without a name and \<^verbatim>\<open>ValueError\<close> on a name that cannot be printed, and
  \<^verbatim>\<open>f"{dest}.tar.gz"\<close>.
\<close>

definition resolve_dest :: "lib \<Rightarrow> string option \<Rightarrow> world \<Rightarrow> exn + string" where
  "resolve_dest L dest w =
     (case dest of
        Some d \<Rightarrow> Inr d
      | None \<Rightarrow>
          (case getattr w ''name'' of
             None \<Rightarrow> Inl AttributeError
           | Some v \<Rightarrow> (if printable v then Inr (str_of L v) else Inl ValueError)))"

definition resolve_tar :: "string \<Rightarrow> string option \<Rightarrow> string" where
  "resolve_tar d dest_tar = (case dest_tar of Some t \<Rightarrow> t | None \<Rightarrow> d @ ''.tar.gz'')"

subsection \<open>Saving\<close>

text \<open>
  \<^verbatim>\<open>os.mkdir\<close> is called when \<^verbatim>\<open>dest\<close> is not a directory. It raises \<^verbatim>\<open>FileNotFoundError\<close>
  (an \<^verbatim>\<open>OSError\<close>) on the empty path and \<^verbatim>\<open>FileExistsError\<close> when a plain file has that
  path.
\<close>

definition make_dest_directory :: "string \<Rightarrow> world \<Rightarrow> exn option \<times> world" where
  "make_dest_directory dest w =
     (if dest \<in> dirs w then (None, w)
      else if dest = [] then (Some OSError, w)
      else if files w dest \<noteq> None then (Some FileExistsError, w)
      else (None, w\<lparr>dirs := insert dest (dirs w)\<rparr>))"

definition manifest_entry :: "string \<Rightarrow> string \<Rightarrow> pyval" where
  "manifest_entry f ty =
     PDict [(PStr ''filename'', PStr f), (PStr ''filetype'', PStr ty), (PStr ''fileformat'', PStr ''csv'')]"

text \<open>The statement \<^verbatim>\<open>self._complex_attributes[k] = {...}\<close>.\<close>

definition record_complex :: "lib \<Rightarrow> string \<Rightarrow> pyval \<Rightarrow> world \<Rightarrow> exn option \<times> world" where
  "record_complex L k e w =
     (case getattr w ''_complex_attributes'' of
        None \<Rightarrow> (Some AttributeError, w)
      | Some m \<Rightarrow>
          (case setitem L m (PStr k) e of
             Inl x \<Rightarrow> (Some x, w)
           | Inr m' \<Rightarrow> (None, set_attr ''_complex_attributes'' m' w)))"

fun save_numpy_keys :: "lib \<Rightarrow> string \<Rightarrow> string list \<Rightarrow> world \<Rightarrow> exn option \<times> world" where
  "save_numpy_keys L dest [] w = (None, w)"
| "save_numpy_keys L dest (k # ks) w =
     (case pygetattr w k of
        None \<Rightarrow> (Some AttributeError, w)
      | Some (PNdarray xs) \<Rightarrow>
          (let f = path_join dest (k @ ''.cs'');
               w1 = write_file f (FText (nd_text L xs)) w
           in case record_complex L k (manifest_entry f ''np.ndarray'') w1 of
                (None, w2) \<Rightarrow> save_numpy_keys L dest ks w2
              | (Some e, w2) \<Rightarrow> (Some e, w2))
      | Some _ \<Rightarrow> save_numpy_keys L dest ks w)"

text \<open>
  Both saving loops run over \<^verbatim>\<open>self._get_attributes()\<close>, the list of the keys of the
  instance dictionary as it is when the loop starts.
\<close>

definition save_numpy_attributes :: "lib \<Rightarrow> string \<Rightarrow> world \<Rightarrow> exn option \<times> world" where
  "save_numpy_attributes L dest w =
     call ''_get_attributes'' (\<lambda>w. save_numpy_keys L dest (map fst (attrs w)) w) w"

fun save_pandas_keys :: "lib \<Rightarrow> string \<Rightarrow> string list \<Rightarrow> world \<Rightarrow> exn option \<times> world" where
  "save_pandas_keys L dest [] w = (None, w)"
| "save_pandas_keys L dest (k # ks) w =
     (case pygetattr w k of
        None \<Rightarrow> (Some AttributeError, w)
      | Some (PDataFrame cs rs) \<Rightarrow>
          (let f = path_join dest (k @ ''.csv'');
               w1 = write_file f (FText (df_text L cs rs)) w
           in case record_complex L k (manifest_entry f ''pd.DataFrame'') w1 of
                (None, w2) \<Rightarrow> save_pandas_keys L dest ks w2
              | (Some e, w2) \<Rightarrow> (Some e, w2))
      | Some _ \<Rightarrow> save_pandas_keys L dest ks w)"

definition save_pandas_attributes :: "lib \<Rightarrow> string \<Rightarrow> world \<Rightarrow> exn option \<times> world" where
  "save_pandas_attributes L dest w =
     call ''_get_attributes'' (\<lambda>w. save_pandas_keys L dest (map fst (attrs w)) w) w"

text \<open>
  \<^verbatim>\<open>json.dump(self._complex_attributes, fp)\<close> has no \<^verbatim>\<open>default\<close> hook. The file is opened for
  writing before anything else can raise, so a failed dump leaves an incomplete file.
\<close>

definition save_complex_attributes :: "string \<Rightarrow> world \<Rightarrow> exn option \<times> world" where
  "save_complex_attributes dest w =
     (let f = path_join dest ''complex_attributes.json''
      in if f \<in> dirs w then (Some IsADirectoryError, w)
         else case getattr w ''_complex_attributes'' of
           None \<Rightarrow> (Some AttributeError, write_file f FPartial w)
         | Some m \<Rightarrow>
             (case to_json False m of
                Inl e \<Rightarrow> (Some e, write_file f FPartial w)
              | Inr j \<Rightarrow> (None, write_file f (FJson j) w)))"

text \<open>\<^verbatim>\<open>json.dump(self.__dict__, fp, default = lambda x : None)\<close>.\<close>

definition save_simple_attributes :: "string \<Rightarrow> world \<Rightarrow> exn option \<times> world" where
  "save_simple_attributes dest w =
     (let f = path_join dest ''simple_attributes.json''
      in if f \<in> dirs w then (Some IsADirectoryError, w)
         else case to_json True (dict_of_attrs (attrs w)) of
           Inl e \<Rightarrow> (Some e, write_file f FPartial w)
         | Inr j \<Rightarrow> (None, write_file f (FJson j) w))"

text \<open>
  \<^verbatim>\<open>tar.add(dest, arcname = os.path.basename(dest))\<close> packs everything below \<^verbatim>\<open>dest\<close> under
  the base name of \<^verbatim>\<open>dest\<close>; \<^verbatim>\<open>tarfile\<close> leaves out the archive it is writing. A \<^verbatim>\<open>dest\<close> that
  is a plain file is packed alone, one that does not exist raises and leaves an empty
  archive. The archive cannot be opened on the path of a directory.
\<close>

definition tar_members :: "string \<Rightarrow> string \<Rightarrow> world \<Rightarrow> string \<Rightarrow> fcontent option" where
  "tar_members dest dest_tar w n =
     (case strip_prefix (path_join (path_basename dest) []) n of
        None \<Rightarrow> None
      | Some r \<Rightarrow>
          (if path_join dest [] @ r = dest_tar then None else files w (path_join dest [] @ r)))"

definition tar_dirs :: "string \<Rightarrow> world \<Rightarrow> string set" where
  "tar_dirs dest w =
     insert (path_basename dest)
       {n. case strip_prefix (path_join (path_basename dest) []) n of
             None \<Rightarrow> False
           | Some r \<Rightarrow> r \<noteq> [] \<and> path_join dest [] @ r \<in> dirs w}"

definition save_as_tar_gz :: "string \<Rightarrow> string \<Rightarrow> world \<Rightarrow> exn option \<times> world" where
  "save_as_tar_gz dest dest_tar w =
     (if dest_tar \<in> dirs w then (Some IsADirectoryError, w)
      else if dest \<in> dirs w then
        (None, write_file dest_tar (FTar (tar_members dest dest_tar w) (tar_dirs dest w)) w)
      else if files w dest \<noteq> None \<and> dest \<noteq> dest_tar then
        (None, write_file dest_tar (FTar ((\<lambda>n. None)(path_basename dest := files w dest)) {}) w)
      else if files w dest \<noteq> None then
        (None, write_file dest_tar (FTar (\<lambda>n. None) {}) w)
      else (Some OSError, write_file dest_tar (FTar (\<lambda>n. None) {}) w))"

definition save :: "lib \<Rightarrow> string option \<Rightarrow> string option \<Rightarrow> world \<Rightarrow> exn option \<times> world" where
  "save L dest dest_tar w =
     (case resolve_dest L dest w of
        Inl e \<Rightarrow> (Some e, w)
      | Inr d \<Rightarrow>
          seq (call ''_make_dest_directory'' (make_dest_directory d))
           (seq (call ''_save_numpy_attributes'' (save_numpy_attributes L d))
             (seq (call ''_save_pandas_attributes'' (save_pandas_attributes L d))
               (seq (call ''_save_complex_attributes'' (save_complex_attributes d))
                 (seq (call ''_save_simple_attributes'' (save_simple_attributes d))
                   (call ''_save_as_tar_gz'' (save_as_tar_gz d (resolve_tar d dest_tar)))))))
           (set_attr ''_simple_attributes'' (PDict [])
             (set_attr ''_complex_attributes'' (PDict []) w)))"

subsection \<open>Building and reloading\<close>

text \<open>
  \<^verbatim>\<open>tar.extractall()\<close> writes every member under its name, relative to the working
  directory, over whatever is there.
\<close>

definition extract_tarfile :: "string \<Rightarrow> world \<Rightarrow> exn option \<times> world" where
  "extract_tarfile dest_tar w =
     (case files w dest_tar of
        None \<Rightarrow> (Some OSError, w)
      | Some (FTar m ds) \<Rightarrow> (None, w\<lparr>dirs := dirs w \<union> ds, files := files w ++ m\<rparr>)
      | Some _ \<Rightarrow> (Some ReadError, w))"

definition get_complex_attribute_definitions :: "lib \<Rightarrow> string \<Rightarrow> world \<Rightarrow> exn option \<times> world" where
  "get_complex_attribute_definitions L dest w =
     (case files w (path_join dest ''complex_attributes.json'') of
        None \<Rightarrow> (Some AssertionError, w)
      | Some c \<Rightarrow>
          (case json_load L c of
             Inl e \<Rightarrow> (Some e, w)
           | Inr v \<Rightarrow> (None, set_attr ''_complex_attributes'' v w)))"

definition get_simple_attribute_definitions :: "lib \<Rightarrow> string \<Rightarrow> world \<Rightarrow> exn option \<times> world" where
  "get_simple_attribute_definitions L dest w =
     (case files w (path_join dest ''simple_attributes.json'') of
        None \<Rightarrow> (Some AssertionError, w)
      | Some c \<Rightarrow>
          (case json_load L c of
             Inl e \<Rightarrow> (Some e, w)
           | Inr v \<Rightarrow> (None, set_attr ''_simple_attributes'' v w)))"

text \<open>
  The loop of \<^verbatim>\<open>_reload_simple_all\<close>. The line it writes after each assignment formats the
  name and the value.
\<close>

fun reload_simple_items :: "(pyval \<times> pyval) list \<Rightarrow> world \<Rightarrow> exn option \<times> world" where
  "reload_simple_items [] w = (None, w)"
| "reload_simple_items ((k, v) # kvs) w =
     (if k = PStr ''_complex_attributes'' \<or> k = PStr ''_simple_attributes'' then
        reload_simple_items kvs w
      else if v = PNone then reload_simple_items kvs w
      else (case setattr k v w of
              (None, w') \<Rightarrow>
                (if printable k \<and> printable v then reload_simple_items kvs w'
                 else (Some ValueError, w'))
            | (Some e, w') \<Rightarrow> (Some e, w')))"

definition reload_simple_all :: "lib \<Rightarrow> world \<Rightarrow> exn option \<times> world" where
  "reload_simple_all L w =
     (case getattr w ''_simple_attributes'' of
        None \<Rightarrow> (Some AttributeError, w)
      | Some m \<Rightarrow>
          (case items_of L m of
             Inl e \<Rightarrow> (Some e, w)
           | Inr kvs \<Rightarrow> reload_simple_items kvs w))"

text \<open>
  The table of readers in \<^verbatim>\<open>_reload_complex\<close>, subscripted by the entry's \<^verbatim>\<open>filetype\<close>: a
  value that cannot be hashed raises \<^verbatim>\<open>TypeError\<close>, one that is not a key raises
  \<^verbatim>\<open>KeyError\<close>.
\<close>

definition reader_for ::
  "lib \<Rightarrow> pyval \<Rightarrow> exn + ((string \<Rightarrow> fcontent option) \<Rightarrow> pyval \<Rightarrow> exn + pyval)" where
  "reader_for L filetype =
     (if \<not> hashable filetype then Inl TypeError
      else if filetype = PStr ''np.ndarray'' then Inr (genfromtxt L)
      else if filetype = PStr ''pd.DataFrame'' then Inr (read_csv L)
      else Inl KeyError)"

text \<open>
  The \<^verbatim>\<open>try\<close> block of \<^verbatim>\<open>_reload_complex\<close> and its handler: a \<^verbatim>\<open>KeyError\<close> raised anywhere in
  the block becomes a warning, any other exception goes on to the caller. The line written
  at the end of the block formats the three fields and the name; the warning formats the
  name, the file name and the type tag.
\<close>

definition reload_complex_try ::
  "lib \<Rightarrow> pyval \<Rightarrow> pyval \<Rightarrow> pyval \<Rightarrow> pyval \<Rightarrow> world \<Rightarrow> exn option \<times> world" where
  "reload_complex_try L k filename filetype fileformat w =
     (case reader_for L filetype of
        Inl e \<Rightarrow> (Some e, w)
      | Inr func \<Rightarrow>
          (case func (files w) filename of
             Inl e \<Rightarrow> (Some e, w)
           | Inr x \<Rightarrow>
               (case setattr k x w of
                  (None, w') \<Rightarrow>
                    (if printable fileformat \<and> printable filetype \<and> printable k
                        \<and> printable filename
                     then (None, w') else (Some ValueError, w'))
                | r \<Rightarrow> r)))"

definition warn_complex :: "pyval \<Rightarrow> pyval \<Rightarrow> pyval \<Rightarrow> world \<Rightarrow> exn option \<times> world" where
  "warn_complex k filename filetype w =
     (if printable k \<and> printable filename \<and> printable filetype
      then (None, warn (CouldNotReloadComplex k filename filetype) w)
      else (Some ValueError, w))"

definition reload_complex :: "lib \<Rightarrow> pyval \<Rightarrow> world \<Rightarrow> exn option \<times> world" where
  "reload_complex L k w =
     (case getattr w ''_complex_attributes'' of
        None \<Rightarrow> (Some AttributeError, w)
      | Some m \<Rightarrow>
     (case getitem L m k of
        Inl e \<Rightarrow> (Some e, w)
      | Inr v \<Rightarrow>
     (case getitem L v (PStr ''filename'') of
        Inl e \<Rightarrow> (Some e, w)
      | Inr filename \<Rightarrow>
     (case getitem L v (PStr ''filetype'') of
        Inl e \<Rightarrow> (Some e, w)
      | Inr filetype \<Rightarrow>
     (case getitem L v (PStr ''fileformat'') of
        Inl e \<Rightarrow> (Some e, w)
      | Inr fileformat \<Rightarrow>
     (case reload_complex_try L k filename filetype fileformat w of
        (Some KeyError, w') \<Rightarrow> warn_complex k filename filetype w'
      | r \<Rightarrow> r))))))"

fun reload_complex_keys :: "lib \<Rightarrow> pyval list \<Rightarrow> world \<Rightarrow> exn option \<times> world" where
  "reload_complex_keys L [] w = (None, w)"
| "reload_complex_keys L (k # ks) w =
     (case call ''_reload_complex'' (reload_complex L k) w of
        (None, w') \<Rightarrow> reload_complex_keys L ks w'
      | (Some e, w') \<Rightarrow> (Some e, w'))"

definition reload_complex_all :: "lib \<Rightarrow> world \<Rightarrow> exn option \<times> world" where
  "reload_complex_all L w =
     (case getattr w ''_complex_attributes'' of
        None \<Rightarrow> (Some AttributeError, w)
      | Some m \<Rightarrow>
          (case keys_of L m of
             Inl e \<Rightarrow> (Some e, w)
           | Inr ks \<Rightarrow> reload_complex_keys L ks w))"

definition reload :: "lib \<Rightarrow> world \<Rightarrow> exn option \<times> world" where
  "reload L w =
     seq (call ''_reload_simple_all'' (reload_simple_all L))
         (call ''_reload_complex_all'' (reload_complex_all L)) w"

text \<open>The call \<^verbatim>\<open>obj._reload()\<close>, from outside the class.\<close>

definition obj_reload :: "lib \<Rightarrow> world \<Rightarrow> exn option \<times> world" where
  "obj_reload L = call ''_reload'' (reload L)"

text \<open>
  In \<^verbatim>\<open>_reload_simple\<close> the lookup \<^verbatim>\<open>self._simple_attributes[k]\<close> stands inside the \<^verbatim>\<open>try\<close>
  block, so its \<^verbatim>\<open>KeyError\<close> is caught; an object without the manifest raises
  \<^verbatim>\<open>AttributeError\<close>, which is not. The line written after the assignment and the warning
  both format the name.
\<close>

definition reload_simple :: "lib \<Rightarrow> pyval \<Rightarrow> world \<Rightarrow> exn option \<times> world" where
  "reload_simple L k w =
     (case (case getattr w ''_simple_attributes'' of
              None \<Rightarrow> (Some AttributeError, w)
            | Some m \<Rightarrow>
                (case getitem L m k of
                   Inl e \<Rightarrow> (Some e, w)
                 | Inr v \<Rightarrow>
                     (case setattr k v w of
                        (None, w') \<Rightarrow> (if printable k then (None, w') else (Some ValueError, w'))
                      | r \<Rightarrow> r))) of
        (Some KeyError, w') \<Rightarrow>
          (if printable k then (None, warn (CouldNotReloadSimple k) w') else (Some ValueError, w'))
      | r \<Rightarrow> r)"

definition build ::
  "lib \<Rightarrow> string option \<Rightarrow> string option \<Rightarrow> bool \<Rightarrow> world \<Rightarrow> exn option \<times> world" where
  "build L dest dest_tar rl w =
     (let w1 = set_attr ''_simple_attributes'' (PDict [])
                 (set_attr ''_complex_attributes'' (PDict []) w)
      in case resolve_dest L dest w1 of
           Inl e \<Rightarrow> (Some e, w1)
         | Inr d \<Rightarrow>
             seq (call ''_extract_tarfile'' (extract_tarfile (resolve_tar d dest_tar)))
              (seq (call ''_get_complex_attribute_definitions''
                      (get_complex_attribute_definitions L d))
                (seq (call ''_get_simple_attribute_definitions''
                        (get_simple_attribute_definitions L d))
                  (if rl then call ''_reload'' (reload L) else (\<lambda>w'. (None, w')))))
              (set_attr ''dest_tar'' (PStr (resolve_tar d dest_tar))
                (set_attr ''dest'' (PStr d) w1)))"

subsection \<open>A small instance of the library\<close>

text \<open>
  The theorems below hold for every \<open>lib\<close>. To run the model on concrete inputs one
  instance is fixed: arrays and tables are written as comma-separated text and read back
  from it, a missing file raises \<^verbatim>\<open>OSError\<close>.
\<close>

fun split_on :: "char \<Rightarrow> string \<Rightarrow> string list" where
  "split_on c [] = [[]]"
| "split_on c (x # xs) =
     (if x = c then [] # split_on c xs
      else (case split_on c xs of [] \<Rightarrow> [[x]] | y # ys \<Rightarrow> (x # y) # ys))"

fun join_with :: "char \<Rightarrow> string list \<Rightarrow> string" where
  "join_with c [] = []"
| "join_with c [x] = x"
| "join_with c (x # y # ys) = x @ c # join_with c (y # ys)"

fun cell_text :: "pyval \<Rightarrow> string" where
  "cell_text (PStr s) = s"
| "cell_text (PInt i) = int_repr i"
| "cell_text (PFloat r) = r"
| "cell_text (PBool b) = (if b then ''True'' else ''False'')"
| "cell_text PNone = ''None''"
| "cell_text v = ''?''"

definition sample_lib :: lib where
  "sample_lib =
     \<lparr>py_str = cell_text,
      nd_text = (\<lambda>xs. join_with CHR '','' (map cell_text xs)),
      df_text = (\<lambda>cs rs. join_with CHR 0x0A
                   (join_with CHR '','' cs # map (\<lambda>r. join_with CHR '','' (map cell_text r)) rs)),
      genfromtxt = (\<lambda>fs fn.
         case fn of
           PStr p \<Rightarrow>
             (case fs p of
                Some (FText s) \<Rightarrow> Inr (PNdarray (map PFloat (split_on CHR '','' s)))
              | Some _ \<Rightarrow> Inl (OtherError ''ValueError'')
              | None \<Rightarrow> Inl OSError)
         | _ \<Rightarrow> Inl TypeError),
      read_csv = (\<lambda>fs fn.
         case fn of
           PStr p \<Rightarrow>
             (case fs p of
                Some (FText s) \<Rightarrow>
                  (case split_on CHR 0x0A s of
                     [] \<Rightarrow> Inl (OtherError ''EmptyDataError'')
                   | h # rs \<Rightarrow>
                       Inr (PDataFrame (split_on CHR '','' h)
                              (map (\<lambda>r. map PFloat (split_on CHR '','' r)) rs)))
              | Some _ \<Rightarrow> Inl (OtherError ''ParserError'')
              | None \<Rightarrow> Inl OSError)
         | _ \<Rightarrow> Inl TypeError),
      json_loads = (\<lambda>s. Inl JSONDecodeError),
      obj_getitem = (\<lambda>c k. case c of PNdarray xs \<Rightarrow> Inl IndexError
                              | PDataFrame cs rs \<Rightarrow> Inl KeyError | _ \<Rightarrow> Inl TypeError),
      obj_setitem = (\<lambda>c k v. case c of PNdarray xs \<Rightarrow> Inl IndexError | _ \<Rightarrow> Inl TypeError),
      obj_items = (\<lambda>c. Inl AttributeError),
      obj_keys = (\<lambda>c. Inl AttributeError)\<rparr>"

subsection \<open>Predicates used in the statements\<close>

text \<open>
  \<open>dumpable v\<close>: at any depth the encoder reaches in \<open>v\<close>, every dictionary has only keys
  the encoder can turn into text (strings, floats, bools, \<^verbatim>\<open>None\<close>, integers within the
  limit) and every integer is within the limit. \<open>json_literal v\<close>: \<open>v\<close> is a scalar of JSON
  (null, a bool, a float, a string, an integer within the limit) or a list of such values.
  \<open>unencodable v\<close>: the encoder does not know \<open>v\<close> (an array, a table, a foreign object).
\<close>

fun dumpable :: "pyval \<Rightarrow> bool"
  and dumpable_list :: "pyval list \<Rightarrow> bool"
  and dumpable_items :: "(pyval \<times> pyval) list \<Rightarrow> bool" where
  "dumpable (PInt i) = int_ok i"
| "dumpable (PList xs) = dumpable_list xs"
| "dumpable (PTuple xs) = dumpable_list xs"
| "dumpable (PDict kvs) = dumpable_items kvs"
| "dumpable v = True"
| "dumpable_list [] = True"
| "dumpable_list (x # xs) = (dumpable x \<and> dumpable_list xs)"
| "dumpable_items [] = True"
| "dumpable_items ((k, v) # kvs) = ((case key_text k of Inl e \<Rightarrow> False | Inr s \<Rightarrow> True) \<and> dumpable v \<and> dumpable_items kvs)"

fun json_literal :: "pyval \<Rightarrow> bool"
  and json_literal_list :: "pyval list \<Rightarrow> bool" where
  "json_literal PNone = True"
| "json_literal (PBool b) = True"
| "json_literal (PInt i) = int_ok i"
| "json_literal (PFloat r) = True"
| "json_literal (PStr s) = True"
| "json_literal (PList xs) = json_literal_list xs"
| "json_literal v = False"
| "json_literal_list [] = True"
| "json_literal_list (x # xs) = (json_literal x \<and> json_literal_list xs)"

fun unencodable :: "pyval \<Rightarrow> bool" where
  "unencodable (PNdarray xs) = True"
| "unencodable (PDataFrame cs rs) = True"
| "unencodable (PObject n) = True"
| "unencodable v = False"

text \<open>
  The names Python treats specially on the object, and the names of the methods of the
  class: an entry of the instance dictionary under one of the latter hides the method.
\<close>

definition special_names :: "string list" where
  "special_names = [''__dict__'', ''__class__'', ''__weakref__'']"



text \<open>
  What \<^verbatim>\<open>_save\<close> needs to get through its calls up to the one that writes the complex
  manifest: the directory is there or can be made, no directory stands where the manifest
  is written, and no attribute hides one of the methods \<^verbatim>\<open>_save\<close> calls.
\<close>

definition save_ready :: "world \<Rightarrow> string \<Rightarrow> bool" where
  "save_ready w d =
     ((d \<in> dirs w \<or> (d \<noteq> [] \<and> files w d = None))
      \<and> path_join d ''complex_attributes.json'' \<notin> dirs w
      \<and> list_all (\<lambda>m. getattr w m = None)
            [''_make_dest_directory'', ''_save_numpy_attributes'', ''_get_attributes'',
             ''_save_pandas_attributes'', ''_save_complex_attributes'',
             ''_save_simple_attributes'', ''_save_as_tar_gz''])"

text \<open>
  The two tests of the saving loops, \<^verbatim>\<open>isinstance(getattr(self, k), np.ndarray)\<close> and
  \<^verbatim>\<open>isinstance(getattr(self, k), pd.DataFrame)\<close>, on the result of an attribute lookup; and
  the shape of a pair of the complex manifest as the loops write it.
\<close>

definition is_nd :: "pyval option \<Rightarrow> bool" where
  "is_nd g = (case g of Some (PNdarray xs) \<Rightarrow> True | _ \<Rightarrow> False)"

definition is_df :: "pyval option \<Rightarrow> bool" where
  "is_df g = (case g of Some (PDataFrame cs rs) \<Rightarrow> True | _ \<Rightarrow> False)"

definition manifest_pair :: "pyval \<times> pyval \<Rightarrow> bool" where
  "manifest_pair kv = (\<exists>k f ty. kv = (PStr k, manifest_entry f ty))"

text \<open>
  The names \<^verbatim>\<open>_reload_simple_all\<close> assigns, given the items of the simple manifest: those
  that are neither of the two manifest attributes nor recorded as null. And the document
  of one entry of the complex manifest.
\<close>

definition simple_reload_names :: "(pyval \<times> pyval) list \<Rightarrow> pyval list" where
  "simple_reload_names kvs =
     map fst (filter (\<lambda>kv. fst kv \<noteq> PStr ''_complex_attributes'' \<and> fst kv \<noteq> PStr ''_simple_attributes''
                          \<and> snd kv \<noteq> PNone) kvs)"

definition entry_doc :: "string \<Rightarrow> string \<Rightarrow> json" where
  "entry_doc f ty = JObj [(''filename'', JStr f), (''filetype'', JStr ty), (''fileformat'', JStr ''csv'')]"










text \<open>
  The attributes a reload reads on the object besides the ones it assigns: the two loaded
  manifests and the names of the methods it calls.
\<close>

definition reload_reads :: "string list" where
  "reload_reads =
     [''_complex_attributes'', ''_simple_attributes'', ''_reload'', ''_reload_simple_all'',
      ''_reload_complex_all'', ''_reload_complex'']"

text \<open>
  What one step of a reload does to the world, as data: it raises, it warns, it assigns
  one attribute or it replaces the instance dictionary; a list of effects is carried out
  in order, up to the first that raises. \<open>complex_effect\<close> is what one call of
  \<^verbatim>\<open>_reload_complex\<close> does, as a function of the only things it reads (the files and the
  loaded complex manifest); \<open>reload_complex_is_effect\<close> below proves that this is what
  the method does.
\<close>

datatype effect = Raise exn | Warn warning | Assign string pyval | Replace "(string \<times> pyval) list"

fun apply_effect :: "effect \<Rightarrow> world \<Rightarrow> exn option \<times> world" where
  "apply_effect (Raise e) w = (Some e, w)"
| "apply_effect (Warn x) w = (None, warn x w)"
| "apply_effect (Assign s v) w = (None, set_attr s v w)"
| "apply_effect (Replace al) w = (None, w\<lparr>attrs := al\<rparr>)"

fun apply_effects :: "effect list \<Rightarrow> world \<Rightarrow> exn option \<times> world" where
  "apply_effects [] w = (None, w)"
| "apply_effects (eff # effs) w =
     (case apply_effect eff w of
        (None, w') \<Rightarrow> apply_effects effs w'
      | (Some e, w') \<Rightarrow> (Some e, w'))"

definition setattr_effect :: "pyval \<Rightarrow> pyval \<Rightarrow> effect" where
  "setattr_effect k v =
     (case k of
        PStr s \<Rightarrow>
          (if s = ''__class__'' then Raise TypeError
           else if s = ''__weakref__'' then Raise AttributeError
           else if s = ''__dict__'' then
             (case v of PDict kvs \<Rightarrow> Replace (str_items kvs) | _ \<Rightarrow> Raise TypeError)
           else Assign s v)
      | _ \<Rightarrow> Raise TypeError)"

definition print_effect :: "bool \<Rightarrow> effect list" where
  "print_effect p = (if p then [] else [Raise ValueError])"

definition handler_effect :: "exn \<Rightarrow> pyval \<Rightarrow> pyval \<Rightarrow> pyval \<Rightarrow> effect list" where
  "handler_effect e k fn ft =
     (if e = KeyError then
        (if printable k \<and> printable fn \<and> printable ft
         then [Warn (CouldNotReloadComplex k fn ft)] else [Raise ValueError])
      else [Raise e])"

definition complex_effect ::
  "lib \<Rightarrow> (string \<Rightarrow> fcontent option) \<Rightarrow> pyval option \<Rightarrow> pyval \<Rightarrow> effect list" where
  "complex_effect L fs c k =
     (case c of
        None \<Rightarrow> [Raise AttributeError]
      | Some m \<Rightarrow>
     (case getitem L m k of
        Inl e \<Rightarrow> [Raise e]
      | Inr v \<Rightarrow>
     (case getitem L v (PStr ''filename'') of
        Inl e \<Rightarrow> [Raise e]
      | Inr fn \<Rightarrow>
     (case getitem L v (PStr ''filetype'') of
        Inl e \<Rightarrow> [Raise e]
      | Inr ft \<Rightarrow>
     (case getitem L v (PStr ''fileformat'') of
        Inl e \<Rightarrow> [Raise e]
      | Inr ff \<Rightarrow>
     (case reader_for L ft of
        Inl e \<Rightarrow> handler_effect e k fn ft
      | Inr func \<Rightarrow>
     (case func fs fn of
        Inl e \<Rightarrow> handler_effect e k fn ft
      | Inr x \<Rightarrow>
          setattr_effect k x
            # print_effect (printable ff \<and> printable ft \<and> printable k \<and> printable fn))))))))"

text \<open>
  The invariant of the proof that a second reload ends where the first did. A first run
  goes from \<open>a0\<close> to \<open>afin\<close> and is now at \<open>a\<close>; the second run started at \<open>afin\<close> and is at
  \<open>b\<close>; \<open>T\<close> holds the names assigned so far. On those names the two runs agree, the
  second run still has the other names as the first run left them, and the first run still
  has them as it found them.
\<close>

definition replay_inv :: "world \<Rightarrow> world \<Rightarrow> world \<Rightarrow> world \<Rightarrow> string set \<Rightarrow> bool" where
  "replay_inv a0 afin a b T =
     (files a = files b
      \<and> (\<forall>s. getattr b s = (if s \<in> T then getattr a s else getattr afin s))
      \<and> (\<forall>s. s \<notin> T \<longrightarrow> getattr a s = getattr a0 s))"

subsection \<open>Worlds used as concrete inputs\<close>

text \<open>An object built from an archive whose manifests are both empty.\<close>

definition built_empty :: world where
  "built_empty =
     \<lparr>attrs = [(''name'', PStr ''s''), (''_complex_attributes'', PDict []),
               (''_simple_attributes'', PDict [])],
      dirs = {}, files = (\<lambda>p. None), warns = []\<rparr>"

text \<open>
  An object whose \<^verbatim>\<open>year\<close> is 2020, with a loaded simple manifest that records \<^verbatim>\<open>year\<close> as
  null.
\<close>

definition built_null_year :: world where
  "built_null_year =
     \<lparr>attrs = [(''name'', PStr ''s''), (''year'', PInt 2020), (''_complex_attributes'', PDict []),
               (''_simple_attributes'', PDict [(PStr ''name'', PStr ''s''), (PStr ''year'', PNone)])],
      dirs = {}, files = (\<lambda>p. None), warns = []\<rparr>"

text \<open>
  A fresh object named \<^verbatim>\<open>s\<close> beside an archive \<^verbatim>\<open>s.tar.gz\<close> that holds the simple manifest
  and no complex manifest.
\<close>

definition half_archive :: world where
  "half_archive =
     \<lparr>attrs = [(''name'', PStr ''s'')],
      dirs = {},
      files = (\<lambda>p. None)(''s.tar.gz'' \<mapsto>
                FTar ((\<lambda>n. None)(''s/simple_attributes.json'' \<mapsto> FJson (JObj [(''name'', JStr ''s'')])))
                     {''s''}),
      warns = []\<rparr>"

text \<open>
  The object of the class's docstring: a name, an attribute left at \<^verbatim>\<open>None\<close>, a list, an
  array and a table.
\<close>

definition simpsons :: world where
  "simpsons =
     \<lparr>attrs = [(''name'', PStr ''Simpsons''), (''year'', PNone),
               (''years'', PList [PInt 2020, PInt 2019]),
               (''bart'', PNdarray [PFloat ''0.0'', PFloat ''0.0'']),
               (''lisa'', PDataFrame [''Pi'', ''e''] [[PFloat ''3.1415'', PFloat ''2.7182'']])],
      dirs = {}, files = (\<lambda>p. None), warns = []\<rparr>"

text \<open>An object holding a list with a foreign object in it, its directory already there.\<close>

definition odd_values :: world where
  "odd_values =
     \<lparr>attrs = [(''name'', PStr ''s''), (''mixed'', PList [PInt 1, PObject 0])],
      dirs = {''s''}, files = (\<lambda>p. None), warns = []\<rparr>"

text \<open>An object holding a dictionary with a tuple as key.\<close>

definition tuple_keyed :: world where
  "tuple_keyed =
     \<lparr>attrs = [(''name'', PStr ''s''), (''table'', PDict [(PTuple [PInt 1, PInt 2], PInt 3)])],
      dirs = {''s''}, files = (\<lambda>p. None), warns = []\<rparr>"



text \<open>
  An object with an attribute left at \<^verbatim>\<open>None\<close>; and a fresh object of the same name beside
  the directory and the archive that saving the first one wrote.
\<close>

definition with_none :: world where
  "with_none =
     \<lparr>attrs = [(''name'', PStr ''s''), (''year'', PNone), (''years'', PList [PInt 2020, PInt 2019])],
      dirs = {}, files = (\<lambda>p. None), warns = []\<rparr>"

definition fresh_beside :: world where
  "fresh_beside = (snd (save sample_lib None None with_none))\<lparr>attrs := [(''name'', PStr ''s'')]\<rparr>"







text \<open>
  A built object that has not been reloaded: the simple manifest records a list, a null
  and the two manifest attributes, the complex manifest an array whose file is there.
\<close>

definition loaded :: world where
  "loaded =
     \<lparr>attrs = [(''name'', PStr ''s''),
               (''_complex_attributes'',
                  PDict [(PStr ''bart'', manifest_entry ''s/bart.cs'' ''np.ndarray'')]),
               (''_simple_attributes'',
                  PDict [(PStr ''name'', PStr ''s''), (PStr ''year'', PNone),
                         (PStr ''years'', PList [PInt 2020, PInt 2019]), (PStr ''bart'', PNone),
                         (PStr ''_complex_attributes'', PDict []),
                         (PStr ''_simple_attributes'', PDict [])])],
      dirs = {''s''},
      files = (\<lambda>p. None)(''s/bart.cs'' \<mapsto> FText ''0.0,1.5''),
      warns = []\<rparr>"

text \<open>
  A built object that has not been reloaded: the simple manifest records \<^verbatim>\<open>x = 1\<close>, the
  complex manifest an array under the name \<^verbatim>\<open>x\<close> and one under the name
  \<^verbatim>\<open>_reload_complex_all\<close>, their file there.
\<close>

definition hidden_loop :: world where
  "hidden_loop =
     \<lparr>attrs = [(''name'', PStr ''s''),
               (''_complex_attributes'',
                  PDict [(PStr ''x'', manifest_entry ''s/bart.cs'' ''np.ndarray''),
                         (PStr ''_reload_complex_all'',
                            manifest_entry ''s/bart.cs'' ''np.ndarray'')]),
               (''_simple_attributes'', PDict [(PStr ''x'', PInt 1)])],
      dirs = {''s''},
      files = (\<lambda>p. None)(''s/bart.cs'' \<mapsto> FText ''0.0,1.5''),
      warns = []\<rparr>"


section \<open>Properties\<close>

subsection \<open>Attributes, files and warnings under the basic operations\<close>

lemma getattr_set_attr: "getattr (set_attr k v w) k' = (if k' = k then Some v else getattr w k')"
  by (simp add: getattr_def set_attr_def update_conv')

lemma files_set_attr: "files (set_attr k v w) = files w"
  by (simp add: set_attr_def)

lemma dirs_set_attr: "dirs (set_attr k v w) = dirs w"
  by (simp add: set_attr_def)

lemma warns_set_attr: "warns (set_attr k v w) = warns w"
  by (simp add: set_attr_def)


lemma getattr_write_file: "getattr (write_file p c w) k = getattr w k"
  by (simp add: getattr_def write_file_def)

lemma resolve_dest_set_attr:
  "k \<noteq> ''name'' \<Longrightarrow> resolve_dest L dest (set_attr k v w) = resolve_dest L dest w"
  by (simp add: resolve_dest_def getattr_set_attr split: option.splits)

lemma extract_tarfile_attrs:
  "attrs (snd (extract_tarfile t w)) = attrs w \<and> warns (snd (extract_tarfile t w)) = warns w"
  by (simp add: extract_tarfile_def split: option.splits fcontent.splits)

lemma extract_tarfile_set_attr:
  "files (snd (extract_tarfile t (set_attr k v w))) = files (snd (extract_tarfile t w))"
  "fst (extract_tarfile t (set_attr k v w)) = fst (extract_tarfile t w)"
  by (simp_all add: extract_tarfile_def set_attr_def split: option.splits fcontent.splits)

lemma get_complex_frame:
  "k \<noteq> ''_complex_attributes'' \<Longrightarrow>
     getattr (snd (get_complex_attribute_definitions L d w)) k = getattr w k"
  "warns (snd (get_complex_attribute_definitions L d w)) = warns w"
  "files (snd (get_complex_attribute_definitions L d w)) = files w"
  by (simp_all add: get_complex_attribute_definitions_def getattr_set_attr warns_set_attr
      files_set_attr split: option.splits sum.splits)

lemma get_complex_missing:
  "files w (path_join d ''complex_attributes.json'') = None \<Longrightarrow>
     get_complex_attribute_definitions L d w = (Some AssertionError, w)"
  by (simp add: get_complex_attribute_definitions_def)

lemma get_simple_missing:
  "files w (path_join d ''simple_attributes.json'') = None \<Longrightarrow>
     get_simple_attribute_definitions L d w = (Some AssertionError, w)"
  by (simp add: get_simple_attribute_definitions_def)

lemma call_result:
  "call m body w = (r, v) \<Longrightarrow> (r = Some TypeError \<and> v = w) \<or> (getattr w m = None \<and> body w = (r, v))"
  by (auto simp: call_def split: option.splits)


lemma call_hidden: "getattr w m = Some v \<Longrightarrow> call m body w = (Some TypeError, w)"
  by (simp add: call_def)

lemma call_completes:
  "call m body w = (None, v) \<Longrightarrow> getattr w m = None \<and> body w = (None, v)"
  by (auto simp: call_def split: option.splits)

lemma getattr_set_attrs: "getattr (w\<lparr>attrs := al\<rparr>) k = map_of al k"
  by (simp add: getattr_def)

subsection \<open>A build without its manifests\<close>

text \<open>
  Claim C3. A build whose directory, once the archive is unpacked, lacks
  \<^verbatim>\<open>complex_attributes.json\<close> or lacks \<^verbatim>\<open>simple_attributes.json\<close> raises, and restores
  nothing: apart from the four attributes \<^verbatim>\<open>_build\<close> sets for its own use before it reads
  a file (\<^verbatim>\<open>dest\<close>, \<^verbatim>\<open>dest_tar\<close> and the two manifests), every attribute of the object is
  what it was, and no warning is issued. The reload is never reached.
\<close>

theorem build_missing_manifest_fails:
  assumes res: "resolve_dest L dest w = Inr d"
    and miss: "files (snd (extract_tarfile (resolve_tar d dest_tar) w))
                 (path_join d ''complex_attributes.json'') = None
       \<or> files (snd (extract_tarfile (resolve_tar d dest_tar) w))
            (path_join d ''simple_attributes.json'') = None"
  shows "fst (build L dest dest_tar rl w) \<noteq> None
     \<and> (\<forall>k. k \<notin> {''dest'', ''dest_tar'', ''_complex_attributes'', ''_simple_attributes''} \<longrightarrow>
            getattr (snd (build L dest dest_tar rl w)) k = getattr w k)
     \<and> warns (snd (build L dest dest_tar rl w)) = warns w"
proof -
  define t where "t = resolve_tar d dest_tar"
  define w2 where "w2 = set_attr ''dest_tar'' (PStr t) (set_attr ''dest'' (PStr d)
      (set_attr ''_simple_attributes'' (PDict []) (set_attr ''_complex_attributes'' (PDict []) w)))"
  define last where "last = seq (call ''_get_simple_attribute_definitions''
                        (get_simple_attribute_definitions L d))
                  (if rl then call ''_reload'' (reload L) else (\<lambda>w'. (None, w')))"
  define rest where "rest = seq (call ''_get_complex_attribute_definitions''
                      (get_complex_attribute_definitions L d)) last"
  have b: "build L dest dest_tar rl w = seq (call ''_extract_tarfile'' (extract_tarfile t)) rest w2"
    using res by (simp add: build_def Let_def resolve_dest_set_attr t_def w2_def rest_def last_def)
  have fw2: "files (snd (extract_tarfile t w2)) = files (snd (extract_tarfile t w))"
    by (simp add: w2_def extract_tarfile_set_attr)
  have frame2: "\<And>k. k \<notin> {''dest'', ''dest_tar'', ''_complex_attributes'', ''_simple_attributes''} \<Longrightarrow>
      getattr w2 k = getattr w k"
    by (simp add: w2_def getattr_set_attr)
  have warns2: "warns w2 = warns w" by (simp add: w2_def warns_set_attr)
  obtain r1 w3 where e: "call ''_extract_tarfile'' (extract_tarfile t) w2 = (r1, w3)"
    by (cases "call ''_extract_tarfile'' (extract_tarfile t) w2")
  have w3: "attrs w3 = attrs w2" "warns w3 = warns w2"
    using call_result [OF e] extract_tarfile_attrs [of t w2] by auto
  have g3: "\<And>k. getattr w3 k = getattr w2 k" using w3 by (simp add: getattr_def)
  show ?thesis
  proof (cases r1)
    case (Some x)
    then show ?thesis using b e w3 frame2 warns2 by (simp add: seq_def getattr_def)
  next
    case None
    have f3: "files w3 = files (snd (extract_tarfile t w))"
      using call_result [OF e] fw2 None by auto
    obtain r2 w4 where g: "call ''_get_complex_attribute_definitions''
                      (get_complex_attribute_definitions L d) w3 = (r2, w4)"
      by (cases "call ''_get_complex_attribute_definitions''
                      (get_complex_attribute_definitions L d) w3")
    have w4: "files w4 = files w3" "warns w4 = warns w3"
      "\<And>k. k \<noteq> ''_complex_attributes'' \<Longrightarrow> getattr w4 k = getattr w3 k"
      using call_result [OF g] get_complex_frame [where L = L and d = d and w = w3] by auto
    show ?thesis
    proof (cases r2)
      case (Some x)
      then show ?thesis using b e None g w4 w3 g3 frame2 warns2
        by (simp add: seq_def rest_def)
    next
      case n2: None
      have "get_complex_attribute_definitions L d w3 = (None, w4)"
        using call_result [OF g] n2 by auto
      then have "files w3 (path_join d ''complex_attributes.json'') \<noteq> None"
        using get_complex_missing [of w3 d L] by auto
      then have sm: "files w4 (path_join d ''simple_attributes.json'') = None"
        using miss f3 w4(1) unfolding t_def by auto
      obtain r3 w5 where h: "call ''_get_simple_attribute_definitions''
                        (get_simple_attribute_definitions L d) w4 = (r3, w5)"
        by (cases "call ''_get_simple_attribute_definitions''
                        (get_simple_attribute_definitions L d) w4")
      have "r3 \<noteq> None \<and> w5 = w4"
        using call_result [OF h] get_simple_missing [OF sm, of L] by auto
      then obtain x where "r3 = Some x" "w5 = w4" by auto
      then show ?thesis using b e None g n2 h w4 w3 g3 frame2 warns2
        by (simp add: seq_def rest_def last_def)
    qed
  qed
qed

theorem build_missing_manifest_fails_witness:
  "resolve_dest sample_lib None half_archive = Inr ''s''
   \<and> files (snd (extract_tarfile ''s.tar.gz'' half_archive)) ''s/simple_attributes.json'' \<noteq> None
   \<and> files (snd (extract_tarfile ''s.tar.gz'' half_archive)) ''s/complex_attributes.json'' = None
   \<and> fst (build sample_lib None None True half_archive) \<noteq> None
   \<and> getattr (snd (build sample_lib None None True half_archive)) ''name'' = Some (PStr ''s'')
   \<and> warns (snd (build sample_lib None None True half_archive)) = []"
proof -
  have r: "resolve_dest sample_lib None half_archive = Inr ''s''"
    by (simp add: resolve_dest_def getattr_def half_archive_def str_of_def)
  have x: "files (snd (extract_tarfile ''s.tar.gz'' half_archive)) ''s/complex_attributes.json'' = None"
    "files (snd (extract_tarfile ''s.tar.gz'' half_archive)) ''s/simple_attributes.json'' \<noteq> None"
    by (simp_all add: extract_tarfile_def half_archive_def)
  have m: "files (snd (extract_tarfile (resolve_tar ''s'' None) half_archive))
                 (path_join ''s'' ''complex_attributes.json'') = None
       \<or> files (snd (extract_tarfile (resolve_tar ''s'' None) half_archive))
            (path_join ''s'' ''simple_attributes.json'') = None"
    using x by (simp add: resolve_tar_def path_join_def)
  have n: "getattr half_archive ''name'' = Some (PStr ''s'')" "warns half_archive = []"
    by (simp_all add: getattr_def half_archive_def)
  from build_missing_manifest_fails [OF r m, of True] show ?thesis
    using r x n by simp
qed

subsection \<open>Reloading one attribute by name\<close>

text \<open>
  \<^verbatim>\<open>_reload_simple\<close> looks the name up inside its \<^verbatim>\<open>try\<close> block: a name the loaded simple
  manifest does not have gives a warning, changes nothing and raises nothing.
\<close>

lemma reload_simple_missing_name_warns:
  assumes "getattr w ''_simple_attributes'' = Some (PDict m)"
    and "map_of m (PStr k) = None"
  shows "reload_simple L (PStr k) w = (None, warn (CouldNotReloadSimple (PStr k)) w)"
  using assms by (simp add: reload_simple_def getitem_def)

text \<open>
  Claim C5 (the code departs from it). \<^verbatim>\<open>_reload_complex\<close> looks the name up in its first
  statement, \<^verbatim>\<open>v = self._complex_attributes[k]\<close>, before its \<^verbatim>\<open>try\<close> block: for a name the
  loaded complex manifest does not have, the \<^verbatim>\<open>KeyError\<close> reaches the caller, and no
  warning is issued.
\<close>

theorem reload_complex_missing_name_raises:
  assumes "getattr w ''_complex_attributes'' = Some (PDict m)"
    and "map_of m (PStr k) = None"
  shows "reload_complex L (PStr k) w = (Some KeyError, w)"
  using assms by (simp add: reload_complex_def getitem_def)

theorem reload_complex_missing_name_raises_witness:
  "getattr built_empty ''_complex_attributes'' = Some (PDict [])
   \<and> getattr built_empty ''_simple_attributes'' = Some (PDict [])
   \<and> reload_complex sample_lib (PStr ''ghost'') built_empty = (Some KeyError, built_empty)
   \<and> reload_simple sample_lib (PStr ''ghost'') built_empty
       = (None, warn (CouldNotReloadSimple (PStr ''ghost'')) built_empty)"
proof -
  have c: "getattr built_empty ''_complex_attributes'' = Some (PDict [])"
    and s: "getattr built_empty ''_simple_attributes'' = Some (PDict [])"
    by (simp_all add: getattr_def built_empty_def)
  have e: "map_of ([] :: (pyval \<times> pyval) list) (PStr ''ghost'') = None" by simp
  show ?thesis
    using c s reload_complex_missing_name_raises [OF c e, of sample_lib]
      reload_simple_missing_name_warns [OF s e, of sample_lib]
    by simp
qed

text \<open>
  Claim C6 (the code departs from it). \<^verbatim>\<open>_reload_simple_all\<close> skips a manifest value that
  is \<^verbatim>\<open>None\<close>; \<^verbatim>\<open>_reload_simple\<close> has no such test, and writes the null of the manifest onto
  the object, over the value the attribute had. (Under one of the three special names
  \<^verbatim>\<open>setattr\<close> refuses \<^verbatim>\<open>None\<close>, and the exception reaches the caller.)
\<close>

theorem reload_simple_writes_null:
  assumes "getattr w ''_simple_attributes'' = Some (PDict m)"
    and "map_of m (PStr k) = Some PNone"
  shows "reload_simple L (PStr k) w =
           (if k = ''__dict__'' \<or> k = ''__class__'' then (Some TypeError, w)
            else if k = ''__weakref__'' then (Some AttributeError, w)
            else (None, set_attr k PNone w))"
  using assms by (simp add: reload_simple_def getitem_def setattr_def)

theorem reload_simple_writes_null_witness:
  "getattr built_null_year ''year'' = Some (PInt 2020)
   \<and> getattr (snd (reload_simple sample_lib (PStr ''year'') built_null_year)) ''year'' = Some PNone
   \<and> fst (reload_simple sample_lib (PStr ''year'') built_null_year) = None"
proof -
  have s: "getattr built_null_year ''_simple_attributes''
      = Some (PDict [(PStr ''name'', PStr ''s''), (PStr ''year'', PNone)])"
    by (simp add: getattr_def built_null_year_def)
  have e: "map_of [(PStr ''name'', PStr ''s''), (PStr ''year'', PNone)] (PStr ''year'') = Some PNone"
    by simp
  have y: "getattr built_null_year ''year'' = Some (PInt 2020)"
    by (simp add: getattr_def built_null_year_def)
  show ?thesis
    using y reload_simple_writes_null [OF s e, of sample_lib]
    by (simp add: getattr_set_attr)
qed

subsection \<open>The JSON encoder\<close>

text \<open>
  With the \<^verbatim>\<open>default\<close> hook the encoder raises exactly when it meets a dictionary key it
  cannot turn into text (\<^verbatim>\<open>TypeError\<close>) or an integer beyond the limit (\<^verbatim>\<open>ValueError\<close>); what
  it writes, the parser accepts; a JSON literal is encoded to a document that decodes to
  itself; a value the encoder does not know becomes null, also inside a list.
\<close>

lemma key_text_cases: "(\<exists>s. key_text k = Inr s) \<or> key_text k = Inl TypeError \<or> key_text k = Inl ValueError"
  by (cases k) auto

lemma to_json_hook_total:
  "(dumpable v \<longrightarrow> (\<exists>j. to_json True v = Inr j))
     \<and> (\<not> dumpable v \<longrightarrow> to_json True v = Inl TypeError \<or> to_json True v = Inl ValueError)"
  "(dumpable_list xs \<longrightarrow> (\<exists>js. to_json_list True xs = Inr js))
     \<and> (\<not> dumpable_list xs \<longrightarrow> to_json_list True xs = Inl TypeError \<or> to_json_list True xs = Inl ValueError)"
  "(dumpable_items kvs \<longrightarrow> (\<exists>ps. to_json_items True kvs = Inr ps))
     \<and> (\<not> dumpable_items kvs \<longrightarrow> to_json_items True kvs = Inl TypeError \<or> to_json_items True kvs = Inl ValueError)"
proof (induction v and xs and kvs rule: dumpable_dumpable_list_dumpable_items.induct)
  case (9 k v kvs)
  show ?case using 9 key_text_cases [of k] by (auto split: sum.splits)
qed (auto split: sum.splits)


lemma to_json_literal:
  "json_literal v \<Longrightarrow> \<exists>j. to_json h v = Inr j \<and> of_json j = v"
  "json_literal_list xs \<Longrightarrow> \<exists>js. to_json_list h xs = Inr js \<and> of_json_list js = xs"
  by (induction v and xs rule: json_literal_json_literal_list.induct) auto

lemma to_json_unencodable: "unencodable v \<Longrightarrow> to_json True v = Inr JNull"
  by (cases v) auto


lemma to_json_items_attrs:
  "to_json_items True (map (\<lambda>kv. (PStr (fst kv), snd kv)) al) = Inr ps \<Longrightarrow>
     list_all2 (\<lambda>kv p. fst p = fst kv \<and> to_json True (snd kv) = Inr (snd p)) al ps"
  by (induction al arbitrary: ps) (auto split: sum.splits)

lemma dumpable_items_attrs:
  "dumpable_items (map (\<lambda>kv. (PStr (fst kv), snd kv)) al) = list_all (\<lambda>kv. dumpable (snd kv)) al"
  by (induction al) auto

lemma to_json_list_nulls_in_place:
  "to_json_list True xs = Inr js \<Longrightarrow>
     length js = length xs \<and> (\<forall>i < length xs. unencodable (xs ! i) \<longrightarrow> js ! i = JNull)"
proof (induction xs arbitrary: js)
  case Nil
  then show ?case by simp
next
  case (Cons x xs)
  then obtain j js' where j: "to_json True x = Inr j" "to_json_list True xs = Inr js'" "js = j # js'"
    by (auto split: sum.splits)
  have "\<And>i. i < length (x # xs) \<Longrightarrow> unencodable ((x # xs) ! i) \<Longrightarrow> js ! i = JNull"
  proof -
    fix i assume i: "i < length (x # xs)" "unencodable ((x # xs) ! i)"
    show "js ! i = JNull"
    proof (cases i)
      case 0
      then show ?thesis using i j to_json_unencodable [of x] by simp
    next
      case (Suc n)
      then show ?thesis using i j Cons.IH [OF j(2)] by simp
    qed
  qed
  then show ?case using j Cons.IH [OF j(2)] by simp
qed

text \<open>
  Claim C9, as amended. The values of the attributes are finite trees. When, at any depth
  the encoder reaches in them, every dictionary has only keys the encoder accepts (strings,
  floats, bools, \<^verbatim>\<open>None\<close>, integers) and every integer, key or value, has at most 4300
  digits, and no directory stands at the path of the simple manifest,
  \<^verbatim>\<open>_save_simple_attributes\<close> does not raise and writes one entry per attribute, in
  order, under the attribute's name: the encoding of its value. An attribute whose value
  the encoder does not know gets null at its key; a JSON literal is kept as it is. (By
  \<open>to_json_list_nulls_in_place\<close>, a value the encoder does not know that stands inside a
  list is replaced by null where it stands, and the list is kept; by \<open>to_json_hook_total\<close>,
  with another key or a longer integer the dump raises.)
\<close>

theorem save_simple_attributes_never_raises:
  assumes "list_all (\<lambda>kv. dumpable (snd kv)) (attrs w)"
    and nd: "path_join d ''simple_attributes.json'' \<notin> dirs w"
  shows "\<exists>ps. save_simple_attributes d w
            = (None, write_file (path_join d ''simple_attributes.json'') (FJson (JObj ps)) w)
          \<and> list_all2 (\<lambda>kv p. fst p = fst kv \<and> to_json True (snd kv) = Inr (snd p)
                \<and> (unencodable (snd kv) \<longrightarrow> snd p = JNull)
                \<and> (json_literal (snd kv) \<longrightarrow> of_json (snd p) = snd kv)) (attrs w) ps"
proof -
  have "dumpable_items (map (\<lambda>kv. (PStr (fst kv), snd kv)) (attrs w))"
    using assms(1) by (simp add: dumpable_items_attrs)
  then obtain ps where ps: "to_json_items True (map (\<lambda>kv. (PStr (fst kv), snd kv)) (attrs w)) = Inr ps"
    using to_json_hook_total(3) by blast
  have 1: "save_simple_attributes d w
            = (None, write_file (path_join d ''simple_attributes.json'') (FJson (JObj ps)) w)"
    using ps nd by (simp add: save_simple_attributes_def dict_of_attrs_def)
  have "list_all2 (\<lambda>kv p. fst p = fst kv \<and> to_json True (snd kv) = Inr (snd p)) (attrs w) ps"
    using to_json_items_attrs [OF ps] .
  then have "list_all2 (\<lambda>kv p. fst p = fst kv \<and> to_json True (snd kv) = Inr (snd p)
                \<and> (unencodable (snd kv) \<longrightarrow> snd p = JNull)
                \<and> (json_literal (snd kv) \<longrightarrow> of_json (snd p) = snd kv)) (attrs w) ps"
  proof (rule list_all2_mono)
    fix kv :: "string \<times> pyval" and p :: "string \<times> json"
    assume a: "fst p = fst kv \<and> to_json True (snd kv) = Inr (snd p)"
    show "fst p = fst kv \<and> to_json True (snd kv) = Inr (snd p)
                \<and> (unencodable (snd kv) \<longrightarrow> snd p = JNull)
                \<and> (json_literal (snd kv) \<longrightarrow> of_json (snd p) = snd kv)"
      using a to_json_unencodable [of "snd kv"] to_json_literal(1) [of "snd kv" True] by auto
  qed
  then show ?thesis using 1 by blast
qed

theorem save_simple_attributes_never_raises_witness:
  "list_all (\<lambda>kv. dumpable (snd kv)) (attrs simpsons)
   \<and> path_join ''Simpsons'' ''simple_attributes.json'' \<notin> dirs simpsons
   \<and> save_simple_attributes ''Simpsons'' simpsons
       = (None, write_file ''Simpsons/simple_attributes.json''
            (FJson (JObj [(''name'', JStr ''Simpsons''), (''year'', JNull),
                          (''years'', JArr [JInt 2020, JInt 2019]),
                          (''bart'', JNull), (''lisa'', JNull)])) simpsons)"
proof -
  have k: "list_all (\<lambda>kv. dumpable (snd kv)) (attrs simpsons)"
    by (simp add: simpsons_def int_ok_def)
  have nd: "path_join ''Simpsons'' ''simple_attributes.json'' \<notin> dirs simpsons"
    by (simp add: simpsons_def)
  from save_simple_attributes_never_raises [OF k nd]
  obtain ps where ps: "save_simple_attributes ''Simpsons'' simpsons
       = (None, write_file (path_join ''Simpsons'' ''simple_attributes.json'') (FJson (JObj ps)) simpsons)"
    by blast
  have "save_simple_attributes ''Simpsons'' simpsons
       = (None, write_file ''Simpsons/simple_attributes.json''
            (FJson (JObj [(''name'', JStr ''Simpsons''), (''year'', JNull),
                          (''years'', JArr [JInt 2020, JInt 2019]),
                          (''bart'', JNull), (''lisa'', JNull)])) simpsons)"
    by (simp add: save_simple_attributes_def dict_of_attrs_def simpsons_def path_join_def int_ok_def)
  then show ?thesis using k nd ps by simp
qed

text \<open>
  Claim C9 as stated fails twice. The list \<^verbatim>\<open>[1, object()]\<close> cannot be encoded literally,
  yet its key does not get null: the list is written with null in the object's place. And
  a dictionary with a tuple as key makes the dump raise \<^verbatim>\<open>TypeError\<close>, leaving an
  incomplete file: the hook is not asked about keys.
\<close>

theorem simple_manifest_counterexample:
  "to_json False (PList [PInt 1, PObject 0]) = Inl TypeError
   \<and> files (snd (save_simple_attributes ''s'' odd_values)) ''s/simple_attributes.json''
       = Some (FJson (JObj [(''name'', JStr ''s''), (''mixed'', JArr [JInt 1, JNull])]))
   \<and> save_simple_attributes ''s'' tuple_keyed
       = (Some TypeError, write_file ''s/simple_attributes.json'' FPartial tuple_keyed)"
  by (simp add: save_simple_attributes_def dict_of_attrs_def odd_values_def tuple_keyed_def
      write_file_def path_join_def int_ok_def)

subsection \<open>What a completed save leaves behind\<close>

lemma set_update_subset: "set (AList.update k v al) \<subseteq> insert (k, v) (set al)"
  by (induction al) auto

lemma manifest_pair_update:
  "list_all manifest_pair m \<Longrightarrow> list_all manifest_pair (AList.update (PStr k) (manifest_entry f ty) m)"
proof -
  assume a: "list_all manifest_pair m"
  have "\<And>x. x \<in> set (AList.update (PStr k) (manifest_entry f ty) m) \<Longrightarrow> manifest_pair x"
  proof -
    fix x assume "x \<in> set (AList.update (PStr k) (manifest_entry f ty) m)"
    then have "x = (PStr k, manifest_entry f ty) \<or> x \<in> set m"
      using set_update_subset [of "PStr k" "manifest_entry f ty" m] by blast
    then show "manifest_pair x"
      using a by (auto simp: list_all_iff manifest_pair_def)
  qed
  then show ?thesis by (simp add: list_all_iff)
qed

lemma record_complex_dict:
  "getattr w ''_complex_attributes'' = Some (PDict m) \<Longrightarrow>
     record_complex L k e w = (None, set_attr ''_complex_attributes'' (PDict (AList.update (PStr k) e m)) w)"
  by (simp add: record_complex_def setitem_def)

lemma is_nd_py: "is_nd (pygetattr w k) = (k \<notin> set special_names \<and> is_nd (getattr w k))"
  by (auto simp: pygetattr_def special_names_def is_nd_def dict_of_attrs_def)

lemma is_df_py: "is_df (pygetattr w k) = (k \<notin> set special_names \<and> is_df (getattr w k))"
  by (auto simp: pygetattr_def special_names_def is_df_def dict_of_attrs_def)

lemma pygetattr_some: "getattr w k \<noteq> None \<Longrightarrow> pygetattr w k \<noteq> None"
  by (simp add: pygetattr_def)

lemma pygetattr_array:
  "pygetattr w k = Some (PNdarray xs) \<Longrightarrow> getattr w k = Some (PNdarray xs)"
  "pygetattr w k = Some (PDataFrame cs rs) \<Longrightarrow> getattr w k = Some (PDataFrame cs rs)"
  by (auto simp: pygetattr_def dict_of_attrs_def split: if_splits)

lemma save_numpy_keys_result:
  assumes "getattr w ''_complex_attributes'' = Some (PDict m)"
    and "\<forall>k\<in>set ks. getattr w k \<noteq> None"
  shows "\<exists>m' fs'. save_numpy_keys L d ks w
            = (None, w\<lparr>attrs := AList.update ''_complex_attributes'' (PDict m') (attrs w), files := fs'\<rparr>)
     \<and> (\<forall>k. map_of m' (PStr k) = (if k \<in> set ks \<and> is_nd (pygetattr w k)
            then Some (manifest_entry (path_join d (k @ ''.cs'')) ''np.ndarray'') else map_of m (PStr k)))
     \<and> (list_all manifest_pair m \<longrightarrow> list_all manifest_pair m')
     \<and> (\<forall>p. (\<forall>k\<in>set ks. is_nd (pygetattr w k) \<longrightarrow> p \<noteq> path_join d (k @ ''.cs'')) \<longrightarrow> fs' p = files w p)
     \<and> (\<forall>k\<in>set ks. is_nd (pygetattr w k) \<longrightarrow> fs' (path_join d (k @ ''.cs'')) \<noteq> None)
     \<and> (\<forall>p. files w p \<noteq> None \<longrightarrow> fs' p \<noteq> None)"
  using assms
proof (induction ks arbitrary: w m)
  case Nil
  have "w\<lparr>attrs := AList.update ''_complex_attributes'' (PDict m) (attrs w), files := files w\<rparr> = w"
    using Nil.prems(1) by (simp add: getattr_def update_triv)
  then have "save_numpy_keys L d [] w
            = (None, w\<lparr>attrs := AList.update ''_complex_attributes'' (PDict m) (attrs w), files := files w\<rparr>)"
    by simp
  then show ?case by (intro exI [of _ m] exI [of _ "files w"]) simp
next
  case (Cons k ks)
  obtain v where v: "pygetattr w k = Some v" using Cons.prems(2) pygetattr_some [of w k] by auto
  show ?case
  proof (cases "is_nd (pygetattr w k)")
    case False
    have step: "save_numpy_keys L d (k # ks) w = save_numpy_keys L d ks w"
      using v False by (cases v) (simp_all add: is_nd_def)
    from Cons.IH [OF Cons.prems(1)] Cons.prems(2)
    obtain m' fs' where r: "save_numpy_keys L d ks w
            = (None, w\<lparr>attrs := AList.update ''_complex_attributes'' (PDict m') (attrs w), files := fs'\<rparr>)"
      "\<forall>k. map_of m' (PStr k) = (if k \<in> set ks \<and> is_nd (pygetattr w k)
            then Some (manifest_entry (path_join d (k @ ''.cs'')) ''np.ndarray'') else map_of m (PStr k))"
      "list_all manifest_pair m \<longrightarrow> list_all manifest_pair m'"
      "\<forall>p. (\<forall>k\<in>set ks. is_nd (pygetattr w k) \<longrightarrow> p \<noteq> path_join d (k @ ''.cs'')) \<longrightarrow> fs' p = files w p"
      "\<forall>k\<in>set ks. is_nd (pygetattr w k) \<longrightarrow> fs' (path_join d (k @ ''.cs'')) \<noteq> None"
      "\<forall>p. files w p \<noteq> None \<longrightarrow> fs' p \<noteq> None"
      by auto
    show ?thesis
      apply (intro exI [of _ m'] exI [of _ fs'])
      using r step False by auto
  next
    case True
    then obtain xs where pxs: "pygetattr w k = Some (PNdarray xs)"
      by (auto simp: is_nd_def split: option.splits pyval.splits)
    have xs: "getattr w k = Some (PNdarray xs)" using pygetattr_array(1) [OF pxs] .
    define f where "f = path_join d (k @ ''.cs'')"
    define e where "e = manifest_entry f ''np.ndarray''"
    define m1 where "m1 = AList.update (PStr k) e m"
    define w2 where "w2 = set_attr ''_complex_attributes'' (PDict m1) (write_file f (FText (nd_text L xs)) w)"
    have kc: "k \<noteq> ''_complex_attributes''" using xs Cons.prems(1) by auto
    have step: "save_numpy_keys L d (k # ks) w = save_numpy_keys L d ks w2"
      using pxs Cons.prems(1)
      by (simp add: Let_def record_complex_dict getattr_write_file f_def e_def m1_def w2_def)
    have g2: "\<And>k'. getattr w2 k' = (if k' = ''_complex_attributes'' then Some (PDict m1) else getattr w k')"
      by (simp add: w2_def getattr_set_attr getattr_write_file)
    have "\<And>k'. is_nd (getattr w2 k') = is_nd (getattr w k')"
      using Cons.prems(1) by (simp add: g2 is_nd_def)
    then have nd2: "\<And>k'. is_nd (pygetattr w2 k') = is_nd (pygetattr w k')"
      by (simp only: is_nd_py)
    have p2: "\<forall>k\<in>set ks. getattr w2 k \<noteq> None" using Cons.prems(2) by (simp add: g2)
    have b2: "getattr w2 ''_complex_attributes'' = Some (PDict m1)" by (simp add: g2)
    from Cons.IH [OF b2 p2]
    obtain m' fs' where r: "save_numpy_keys L d ks w2
            = (None, w2\<lparr>attrs := AList.update ''_complex_attributes'' (PDict m') (attrs w2), files := fs'\<rparr>)"
      "\<forall>k. map_of m' (PStr k) = (if k \<in> set ks \<and> is_nd (pygetattr w2 k)
            then Some (manifest_entry (path_join d (k @ ''.cs'')) ''np.ndarray'') else map_of m1 (PStr k))"
      "list_all manifest_pair m1 \<longrightarrow> list_all manifest_pair m'"
      "\<forall>p. (\<forall>k\<in>set ks. is_nd (pygetattr w2 k) \<longrightarrow> p \<noteq> path_join d (k @ ''.cs'')) \<longrightarrow> fs' p = files w2 p"
      "\<forall>k\<in>set ks. is_nd (pygetattr w2 k) \<longrightarrow> fs' (path_join d (k @ ''.cs'')) \<noteq> None"
      "\<forall>p. files w2 p \<noteq> None \<longrightarrow> fs' p \<noteq> None"
      by auto
    have fw2: "files w2 = (files w)(f \<mapsto> FText (nd_text L xs))"
      by (simp add: w2_def set_attr_def write_file_def)
    have w2': "w2\<lparr>attrs := AList.update ''_complex_attributes'' (PDict m') (attrs w2), files := fs'\<rparr>
        = w\<lparr>attrs := AList.update ''_complex_attributes'' (PDict m') (attrs w), files := fs'\<rparr>"
      by (simp add: w2_def set_attr_def write_file_def)
    have 1: "save_numpy_keys L d (k # ks) w
        = (None, w\<lparr>attrs := AList.update ''_complex_attributes'' (PDict m') (attrs w), files := fs'\<rparr>)"
      using step r(1) w2' by simp
    have 2: "\<forall>k'. map_of m' (PStr k') = (if k' \<in> set (k # ks) \<and> is_nd (pygetattr w k')
            then Some (manifest_entry (path_join d (k' @ ''.cs'')) ''np.ndarray'') else map_of m (PStr k'))"
      using r(2) True by (auto simp: nd2 m1_def e_def f_def update_conv')
    have 3: "list_all manifest_pair m \<longrightarrow> list_all manifest_pair m'"
      using r(3) manifest_pair_update [of m k f "''np.ndarray''"] by (simp add: m1_def e_def)
    have 4: "\<forall>p. (\<forall>k\<in>set (k # ks). is_nd (pygetattr w k) \<longrightarrow> p \<noteq> path_join d (k @ ''.cs'')) \<longrightarrow> fs' p = files w p"
      using r(4) True by (auto simp: nd2 fw2 f_def)
    have 5: "\<forall>k\<in>set (k # ks). is_nd (pygetattr w k) \<longrightarrow> fs' (path_join d (k @ ''.cs'')) \<noteq> None"
      using r(5) r(6) by (auto simp: nd2 fw2 f_def)
    have 6: "\<forall>p. files w p \<noteq> None \<longrightarrow> fs' p \<noteq> None"
      using r(6) by (auto simp: fw2)
    show ?thesis
      apply (intro exI [of _ m'] exI [of _ fs'])
      using 1 2 3 4 5 6 by blast
  qed
qed

lemma save_pandas_keys_result:
  assumes "getattr w ''_complex_attributes'' = Some (PDict m)"
    and "\<forall>k\<in>set ks. getattr w k \<noteq> None"
  shows "\<exists>m' fs'. save_pandas_keys L d ks w
            = (None, w\<lparr>attrs := AList.update ''_complex_attributes'' (PDict m') (attrs w), files := fs'\<rparr>)
     \<and> (\<forall>k. map_of m' (PStr k) = (if k \<in> set ks \<and> is_df (pygetattr w k)
            then Some (manifest_entry (path_join d (k @ ''.csv'')) ''pd.DataFrame'') else map_of m (PStr k)))
     \<and> (list_all manifest_pair m \<longrightarrow> list_all manifest_pair m')
     \<and> (\<forall>p. (\<forall>k\<in>set ks. is_df (pygetattr w k) \<longrightarrow> p \<noteq> path_join d (k @ ''.csv'')) \<longrightarrow> fs' p = files w p)
     \<and> (\<forall>k\<in>set ks. is_df (pygetattr w k) \<longrightarrow> fs' (path_join d (k @ ''.csv'')) \<noteq> None)
     \<and> (\<forall>p. files w p \<noteq> None \<longrightarrow> fs' p \<noteq> None)"
  using assms
proof (induction ks arbitrary: w m)
  case Nil
  have "w\<lparr>attrs := AList.update ''_complex_attributes'' (PDict m) (attrs w), files := files w\<rparr> = w"
    using Nil.prems(1) by (simp add: getattr_def update_triv)
  then have "save_pandas_keys L d [] w
            = (None, w\<lparr>attrs := AList.update ''_complex_attributes'' (PDict m) (attrs w), files := files w\<rparr>)"
    by simp
  then show ?case by (intro exI [of _ m] exI [of _ "files w"]) simp
next
  case (Cons k ks)
  obtain v where v: "pygetattr w k = Some v" using Cons.prems(2) pygetattr_some [of w k] by auto
  show ?case
  proof (cases "is_df (pygetattr w k)")
    case False
    have step: "save_pandas_keys L d (k # ks) w = save_pandas_keys L d ks w"
      using v False by (cases v) (simp_all add: is_df_def)
    from Cons.IH [OF Cons.prems(1)] Cons.prems(2)
    obtain m' fs' where r: "save_pandas_keys L d ks w
            = (None, w\<lparr>attrs := AList.update ''_complex_attributes'' (PDict m') (attrs w), files := fs'\<rparr>)"
      "\<forall>k. map_of m' (PStr k) = (if k \<in> set ks \<and> is_df (pygetattr w k)
            then Some (manifest_entry (path_join d (k @ ''.csv'')) ''pd.DataFrame'') else map_of m (PStr k))"
      "list_all manifest_pair m \<longrightarrow> list_all manifest_pair m'"
      "\<forall>p. (\<forall>k\<in>set ks. is_df (pygetattr w k) \<longrightarrow> p \<noteq> path_join d (k @ ''.csv'')) \<longrightarrow> fs' p = files w p"
      "\<forall>k\<in>set ks. is_df (pygetattr w k) \<longrightarrow> fs' (path_join d (k @ ''.csv'')) \<noteq> None"
      "\<forall>p. files w p \<noteq> None \<longrightarrow> fs' p \<noteq> None"
      by auto
    show ?thesis
      apply (intro exI [of _ m'] exI [of _ fs'])
      using r step False by auto
  next
    case True
    then obtain cs rs where pxs: "pygetattr w k = Some (PDataFrame cs rs)"
      by (auto simp: is_df_def split: option.splits pyval.splits)
    have xs: "getattr w k = Some (PDataFrame cs rs)" using pygetattr_array(2) [OF pxs] .
    define f where "f = path_join d (k @ ''.csv'')"
    define e where "e = manifest_entry f ''pd.DataFrame''"
    define m1 where "m1 = AList.update (PStr k) e m"
    define w2 where "w2 = set_attr ''_complex_attributes'' (PDict m1) (write_file f (FText (df_text L cs rs)) w)"
    have kc: "k \<noteq> ''_complex_attributes''" using xs Cons.prems(1) by auto
    have step: "save_pandas_keys L d (k # ks) w = save_pandas_keys L d ks w2"
      using pxs Cons.prems(1)
      by (simp add: Let_def record_complex_dict getattr_write_file f_def e_def m1_def w2_def)
    have g2: "\<And>k'. getattr w2 k' = (if k' = ''_complex_attributes'' then Some (PDict m1) else getattr w k')"
      by (simp add: w2_def getattr_set_attr getattr_write_file)
    have "\<And>k'. is_df (getattr w2 k') = is_df (getattr w k')"
      using Cons.prems(1) by (simp add: g2 is_df_def)
    then have df2: "\<And>k'. is_df (pygetattr w2 k') = is_df (pygetattr w k')"
      by (simp only: is_df_py)
    have p2: "\<forall>k\<in>set ks. getattr w2 k \<noteq> None" using Cons.prems(2) by (simp add: g2)
    have b2: "getattr w2 ''_complex_attributes'' = Some (PDict m1)" by (simp add: g2)
    from Cons.IH [OF b2 p2]
    obtain m' fs' where r: "save_pandas_keys L d ks w2
            = (None, w2\<lparr>attrs := AList.update ''_complex_attributes'' (PDict m') (attrs w2), files := fs'\<rparr>)"
      "\<forall>k. map_of m' (PStr k) = (if k \<in> set ks \<and> is_df (pygetattr w2 k)
            then Some (manifest_entry (path_join d (k @ ''.csv'')) ''pd.DataFrame'') else map_of m1 (PStr k))"
      "list_all manifest_pair m1 \<longrightarrow> list_all manifest_pair m'"
      "\<forall>p. (\<forall>k\<in>set ks. is_df (pygetattr w2 k) \<longrightarrow> p \<noteq> path_join d (k @ ''.csv'')) \<longrightarrow> fs' p = files w2 p"
      "\<forall>k\<in>set ks. is_df (pygetattr w2 k) \<longrightarrow> fs' (path_join d (k @ ''.csv'')) \<noteq> None"
      "\<forall>p. files w2 p \<noteq> None \<longrightarrow> fs' p \<noteq> None"
      by auto
    have fw2: "files w2 = (files w)(f \<mapsto> FText (df_text L cs rs))"
      by (simp add: w2_def set_attr_def write_file_def)
    have w2': "w2\<lparr>attrs := AList.update ''_complex_attributes'' (PDict m') (attrs w2), files := fs'\<rparr>
        = w\<lparr>attrs := AList.update ''_complex_attributes'' (PDict m') (attrs w), files := fs'\<rparr>"
      by (simp add: w2_def set_attr_def write_file_def)
    have 1: "save_pandas_keys L d (k # ks) w
        = (None, w\<lparr>attrs := AList.update ''_complex_attributes'' (PDict m') (attrs w), files := fs'\<rparr>)"
      using step r(1) w2' by simp
    have 2: "\<forall>k'. map_of m' (PStr k') = (if k' \<in> set (k # ks) \<and> is_df (pygetattr w k')
            then Some (manifest_entry (path_join d (k' @ ''.csv'')) ''pd.DataFrame'') else map_of m (PStr k'))"
      using r(2) True by (auto simp: df2 m1_def e_def f_def update_conv')
    have 3: "list_all manifest_pair m \<longrightarrow> list_all manifest_pair m'"
      using r(3) manifest_pair_update [of m k f "''pd.DataFrame''"] by (simp add: m1_def e_def)
    have 4: "\<forall>p. (\<forall>k\<in>set (k # ks). is_df (pygetattr w k) \<longrightarrow> p \<noteq> path_join d (k @ ''.csv'')) \<longrightarrow> fs' p = files w p"
      using r(4) True by (auto simp: df2 fw2 f_def)
    have 5: "\<forall>k\<in>set (k # ks). is_df (pygetattr w k) \<longrightarrow> fs' (path_join d (k @ ''.csv'')) \<noteq> None"
      using r(5) r(6) by (auto simp: df2 fw2 f_def)
    have 6: "\<forall>p. files w p \<noteq> None \<longrightarrow> fs' p \<noteq> None"
      using r(6) by (auto simp: fw2)
    show ?thesis
      apply (intro exI [of _ m'] exI [of _ fs'])
      using 1 2 3 4 5 6 by blast
  qed
qed


lemma attr_names_have_values: "\<forall>k\<in>set (map fst (attrs w)). getattr w k \<noteq> None"
  by (auto simp: getattr_def map_of_eq_None_iff image_iff)

lemma to_json_manifest_entry:
  "to_json h (manifest_entry f ty)
     = Inr (JObj [(''filename'', JStr f), (''filetype'', JStr ty), (''fileformat'', JStr ''csv'')])"
  by (simp add: manifest_entry_def)

lemma to_json_items_manifest:
  "list_all manifest_pair m \<Longrightarrow>
     \<exists>ps. to_json_items h m = Inr ps \<and> map (\<lambda>p. PStr (fst p)) ps = map fst m"
proof (induction m)
  case Nil
  then show ?case by simp
next
  case (Cons a m)
  then obtain k f ty where a: "a = (PStr k, manifest_entry f ty)"
    by (auto simp: manifest_pair_def)
  from Cons obtain ps where "to_json_items h m = Inr ps" "map (\<lambda>p. PStr (fst p)) ps = map fst m"
    by auto
  then show ?case using a by (simp add: to_json_manifest_entry)
qed

lemma is_nd_names: "is_nd (pygetattr w k) \<Longrightarrow> k \<in> set (map fst (attrs w))"
  unfolding is_nd_py
  by (auto simp: is_nd_def getattr_def split: option.splits dest: map_of_SomeD intro: rev_image_eqI)

lemma is_df_names: "is_df (pygetattr w k) \<Longrightarrow> k \<in> set (map fst (attrs w))"
  unfolding is_df_py
  by (auto simp: is_df_def getattr_def split: option.splits dest: map_of_SomeD intro: rev_image_eqI)

text \<open>
  The steps of \<^verbatim>\<open>_save\<close> up to the complex manifest. The two loops and the dump of the
  complex manifest cannot raise; the save gets past them exactly when the directory is
  there or can be made and no attribute hides a method on the way (\<open>save_ready\<close>, which
  also asks for the two methods still to be called).
\<close>

lemma save_simple_attributes_attrs: "attrs (snd (save_simple_attributes d w)) = attrs w"
  by (simp add: save_simple_attributes_def write_file_def Let_def split: sum.splits)

lemma save_chain:
  assumes res: "resolve_dest L dest w = Inr d"
  shows "\<exists>m cps F w4.
      attrs w4 = AList.update ''_complex_attributes'' (PDict m)
                   (attrs (set_attr ''_simple_attributes'' (PDict []) (set_attr ''_complex_attributes'' (PDict []) w)))
    \<and> (\<forall>k. map_of m (PStr k) =
          (if is_nd (pygetattr w k) \<and> k \<notin> {''_complex_attributes'', ''_simple_attributes''}
             then Some (manifest_entry (path_join d (k @ ''.cs'')) ''np.ndarray'')
           else if is_df (pygetattr w k) \<and> k \<notin> {''_complex_attributes'', ''_simple_attributes''}
             then Some (manifest_entry (path_join d (k @ ''.csv'')) ''pd.DataFrame'')
           else None))
    \<and> list_all manifest_pair m
    \<and> to_json_items False m = Inr cps
    \<and> (\<forall>p. (\<forall>k. is_nd (pygetattr w k) \<and> k \<notin> {''_complex_attributes'', ''_simple_attributes''}
                 \<longrightarrow> p \<noteq> path_join d (k @ ''.cs'')) \<and>
            (\<forall>k. is_df (pygetattr w k) \<and> k \<notin> {''_complex_attributes'', ''_simple_attributes''}
                 \<longrightarrow> p \<noteq> path_join d (k @ ''.csv''))
          \<longrightarrow> F p = files w p)
    \<and> (\<forall>p. files w p \<noteq> None \<longrightarrow> F p \<noteq> None)
    \<and> (\<forall>k. is_nd (pygetattr w k) \<and> k \<notin> {''_complex_attributes'', ''_simple_attributes''}
            \<longrightarrow> F (path_join d (k @ ''.cs'')) \<noteq> None)
    \<and> (\<forall>k. is_df (pygetattr w k) \<and> k \<notin> {''_complex_attributes'', ''_simple_attributes''}
            \<longrightarrow> F (path_join d (k @ ''.csv'')) \<noteq> None)
    \<and> files w4 = F(path_join d ''complex_attributes.json'' \<mapsto> FJson (JObj cps))
    \<and> dirs w4 = insert d (dirs w) \<and> warns w4 = warns w
    \<and> (save_ready w d \<longrightarrow>
          save L dest dest_tar w
            = seq (save_simple_attributes d) (save_as_tar_gz d (resolve_tar d dest_tar)) w4)
    \<and> (\<not> save_ready w d \<longrightarrow> fst (save L dest dest_tar w) \<noteq> None)"
proof -
  define w0 where "w0 = set_attr ''_simple_attributes'' (PDict []) (set_attr ''_complex_attributes'' (PDict []) w)"
  define t where "t = resolve_tar d dest_tar"
  define res2 where "res2 k \<longleftrightarrow> k \<notin> {''_complex_attributes'', ''_simple_attributes''}" for k :: string
  have g0: "\<And>k. getattr w0 k = (if k = ''_simple_attributes'' \<or> k = ''_complex_attributes'' then Some (PDict []) else getattr w k)"
    by (auto simp: w0_def getattr_set_attr)
  have "\<And>k. is_nd (getattr w0 k) = (is_nd (getattr w k) \<and> res2 k)"
    and "\<And>k. is_df (getattr w0 k) = (is_df (getattr w k) \<and> res2 k)"
    by (auto simp: g0 is_nd_def is_df_def res2_def)
  then have nd0: "\<And>k. is_nd (pygetattr w0 k) = (is_nd (pygetattr w k) \<and> res2 k)"
    and df0: "\<And>k. is_df (pygetattr w0 k) = (is_df (pygetattr w k) \<and> res2 k)"
    by (auto simp only: is_nd_py is_df_py)
  define w1 where "w1 = w0\<lparr>dirs := insert d (dirs w0)\<rparr>"
  have g1: "\<And>k. getattr w1 k = getattr w0 k" by (simp add: w1_def getattr_def)
  have b1: "getattr w1 ''_complex_attributes'' = Some (PDict [])" by (simp add: g1 g0)
  obtain m1 fs1 where n: "save_numpy_keys L d (map fst (attrs w1)) w1
            = (None, w1\<lparr>attrs := AList.update ''_complex_attributes'' (PDict m1) (attrs w1), files := fs1\<rparr>)"
     and n2: "\<forall>k. map_of m1 (PStr k) = (if k \<in> set (map fst (attrs w1)) \<and> is_nd (pygetattr w1 k)
            then Some (manifest_entry (path_join d (k @ ''.cs'')) ''np.ndarray'') else map_of [] (PStr k))"
     and n3: "list_all manifest_pair [] \<longrightarrow> list_all manifest_pair m1"
     and n4: "\<forall>p. (\<forall>k\<in>set (map fst (attrs w1)). is_nd (pygetattr w1 k) \<longrightarrow> p \<noteq> path_join d (k @ ''.cs'')) \<longrightarrow> fs1 p = files w1 p"
     and n5: "\<forall>k\<in>set (map fst (attrs w1)). is_nd (pygetattr w1 k) \<longrightarrow> fs1 (path_join d (k @ ''.cs'')) \<noteq> None"
     and n6: "\<forall>p. files w1 p \<noteq> None \<longrightarrow> fs1 p \<noteq> None"
    using save_numpy_keys_result [OF b1 attr_names_have_values, of L d] by blast
  define w2 where "w2 = w1\<lparr>attrs := AList.update ''_complex_attributes'' (PDict m1) (attrs w1), files := fs1\<rparr>"
  have g2: "\<And>k. getattr w2 k = (if k = ''_complex_attributes'' then Some (PDict m1) else getattr w1 k)"
    by (simp add: w2_def getattr_def update_conv')
  have b2: "getattr w2 ''_complex_attributes'' = Some (PDict m1)" by (simp add: g2)
  have pg1: "\<And>k. pygetattr w1 k = pygetattr w0 k"
    by (simp add: pygetattr_def w1_def getattr_def)
  have ndw1: "\<And>k. is_nd (pygetattr w1 k) = (is_nd (pygetattr w k) \<and> res2 k)"
    by (simp add: pg1 nd0)
  have nd1: "\<And>k. (k \<in> set (map fst (attrs w1)) \<and> is_nd (pygetattr w1 k)) = (is_nd (pygetattr w k) \<and> res2 k)"
    using is_nd_names [of w1] ndw1 by blast
  have dfw2: "\<And>k. is_df (pygetattr w2 k) = (is_df (pygetattr w k) \<and> res2 k)"
  proof -
    fix k
    have "is_df (getattr w2 k) = is_df (getattr w1 k)"
      using b1 by (simp add: g2 is_df_def)
    then have "is_df (pygetattr w2 k) = is_df (pygetattr w1 k)"
      by (simp only: is_df_py)
    then show "is_df (pygetattr w2 k) = (is_df (pygetattr w k) \<and> res2 k)"
      by (simp add: pg1 df0)
  qed
  have df2: "\<And>k. (k \<in> set (map fst (attrs w2)) \<and> is_df (pygetattr w2 k)) = (is_df (pygetattr w k) \<and> res2 k)"
    using is_df_names [of w2] dfw2 by blast
  obtain m2 fs2 where p: "save_pandas_keys L d (map fst (attrs w2)) w2
            = (None, w2\<lparr>attrs := AList.update ''_complex_attributes'' (PDict m2) (attrs w2), files := fs2\<rparr>)"
     and p2: "\<forall>k. map_of m2 (PStr k) = (if k \<in> set (map fst (attrs w2)) \<and> is_df (pygetattr w2 k)
            then Some (manifest_entry (path_join d (k @ ''.csv'')) ''pd.DataFrame'') else map_of m1 (PStr k))"
     and p3: "list_all manifest_pair m1 \<longrightarrow> list_all manifest_pair m2"
     and p4: "\<forall>p. (\<forall>k\<in>set (map fst (attrs w2)). is_df (pygetattr w2 k) \<longrightarrow> p \<noteq> path_join d (k @ ''.csv'')) \<longrightarrow> fs2 p = files w2 p"
     and p5: "\<forall>k\<in>set (map fst (attrs w2)). is_df (pygetattr w2 k) \<longrightarrow> fs2 (path_join d (k @ ''.csv'')) \<noteq> None"
     and p6: "\<forall>p. files w2 p \<noteq> None \<longrightarrow> fs2 p \<noteq> None"
    using save_pandas_keys_result [OF b2 attr_names_have_values, of L d] by blast
  define w3 where "w3 = w2\<lparr>attrs := AList.update ''_complex_attributes'' (PDict m2) (attrs w2), files := fs2\<rparr>"
  have a3: "attrs w3 = AList.update ''_complex_attributes'' (PDict m2) (attrs w0)"
    by (simp add: w3_def w2_def w1_def)
  have b3: "getattr w3 ''_complex_attributes'' = Some (PDict m2)"
    by (simp add: w3_def getattr_def update_conv')
  have mp: "list_all manifest_pair m2" using n3 p3 by simp
  obtain cps where cps: "to_json_items False m2 = Inr cps"
    using to_json_items_manifest [OF mp] by blast
  define cpath where "cpath = path_join d ''complex_attributes.json''"
  define spath where "spath = path_join d ''simple_attributes.json''"
  define w4 where "w4 = write_file cpath (FJson (JObj cps)) w3"
  have cd: "cpath \<noteq> d" by (auto simp: cpath_def path_join_def)
  have d3: "dirs w3 = insert d (dirs w)"
    by (simp add: w3_def w2_def w1_def w0_def set_attr_def)
  have sc: "cpath \<notin> dirs w \<Longrightarrow> save_complex_attributes d w3 = (None, w4)"
    using b3 cps cd by (simp add: save_complex_attributes_def w4_def cpath_def d3)
  have scf: "cpath \<in> dirs w \<Longrightarrow> fst (save_complex_attributes d w3) \<noteq> None"
    by (simp add: save_complex_attributes_def cpath_def d3)
  have a4: "attrs w4 = attrs w3" by (simp add: w4_def write_file_def)
  have gm0: "\<And>m. m \<noteq> ''_simple_attributes'' \<Longrightarrow> m \<noteq> ''_complex_attributes'' \<Longrightarrow> getattr w0 m = getattr w m"
    by (simp add: g0)
  have gm2: "\<And>m. m \<noteq> ''_complex_attributes'' \<Longrightarrow> getattr w2 m = getattr w1 m"
    by (simp add: g2)
  have gm3: "\<And>m. m \<noteq> ''_complex_attributes'' \<Longrightarrow> getattr w3 m = getattr w2 m"
    by (simp add: w3_def getattr_def update_conv')
  have gm4: "\<And>m. getattr w4 m = getattr w3 m"
    by (simp add: w4_def getattr_write_file)
  define R4 where "R4 = seq (call ''_save_simple_attributes'' (save_simple_attributes d))
                            (call ''_save_as_tar_gz'' (save_as_tar_gz d t))"
  define R3 where "R3 = seq (call ''_save_complex_attributes'' (save_complex_attributes d)) R4"
  define R2 where "R2 = seq (call ''_save_pandas_attributes'' (save_pandas_attributes L d)) R3"
  define R1 where "R1 = seq (call ''_save_numpy_attributes'' (save_numpy_attributes L d)) R2"
  have A: "save L dest dest_tar w = seq (call ''_make_dest_directory'' (make_dest_directory d)) R1 w0"
    using res by (simp add: save_def w0_def t_def R1_def R2_def R3_def R4_def)
  define dir_ok where "dir_ok \<longleftrightarrow> d \<in> dirs w \<or> (d \<noteq> [] \<and> files w d = None)"
  have d0: "dirs w0 = dirs w" "files w0 = files w"
    by (simp_all add: w0_def set_attr_def)
  have mk: "dir_ok \<Longrightarrow> make_dest_directory d w0 = (None, w1)"
    by (auto simp: make_dest_directory_def w1_def dir_ok_def d0 insert_absorb)
  have mkf: "\<not> dir_ok \<Longrightarrow> fst (make_dest_directory d w0) \<noteq> None"
    by (auto simp: make_dest_directory_def dir_ok_def d0)
  have E0a: "getattr w ''_make_dest_directory'' = None \<Longrightarrow> dir_ok \<Longrightarrow> save L dest dest_tar w = R1 w1"
    by (simp add: A seq_def call_def gm0 mk)
  have E0b: "\<not> (getattr w ''_make_dest_directory'' = None \<and> dir_ok) \<Longrightarrow> fst (save L dest dest_tar w) \<noteq> None"
    using mkf by (auto simp: A seq_def call_def gm0 split: option.splits prod.splits)
  have E1a: "getattr w ''_save_numpy_attributes'' = None \<Longrightarrow> getattr w ''_get_attributes'' = None
               \<Longrightarrow> R1 w1 = R2 w2"
    using n by (simp add: R1_def seq_def call_def save_numpy_attributes_def g1 gm0 w2_def)
  have E1b: "\<not> (getattr w ''_save_numpy_attributes'' = None \<and> getattr w ''_get_attributes'' = None)
               \<Longrightarrow> fst (R1 w1) \<noteq> None"
    by (auto simp: R1_def seq_def call_def save_numpy_attributes_def g1 gm0 split: option.splits)
  have E2a: "getattr w ''_save_pandas_attributes'' = None \<Longrightarrow> getattr w ''_get_attributes'' = None
               \<Longrightarrow> R2 w2 = R3 w3"
    using p by (simp add: R2_def seq_def call_def save_pandas_attributes_def gm2 g1 gm0 w3_def)
  have E2b: "\<not> (getattr w ''_save_pandas_attributes'' = None \<and> getattr w ''_get_attributes'' = None)
               \<Longrightarrow> fst (R2 w2) \<noteq> None"
    by (auto simp: R2_def seq_def call_def save_pandas_attributes_def gm2 g1 gm0 split: option.splits)
  have E3a: "getattr w ''_save_complex_attributes'' = None \<Longrightarrow> cpath \<notin> dirs w \<Longrightarrow> R3 w3 = R4 w4"
    using sc by (simp add: R3_def seq_def call_def gm3 gm2 g1 gm0)
  have E3b: "\<not> (getattr w ''_save_complex_attributes'' = None \<and> cpath \<notin> dirs w)
               \<Longrightarrow> fst (R3 w3) \<noteq> None"
    using scf
    by (auto simp: R3_def seq_def call_def gm3 gm2 g1 gm0 split: option.splits prod.splits)
  obtain r5 w5 where ss: "save_simple_attributes d w4 = (r5, w5)"
    by (cases "save_simple_attributes d w4")
  have a5: "attrs w5 = attrs w4"
    using save_simple_attributes_attrs [of d w4] ss by simp
  have gm5: "\<And>m. getattr w5 m = getattr w4 m" by (simp add: getattr_def a5)
  have E4a: "getattr w ''_save_simple_attributes'' = None \<Longrightarrow> getattr w ''_save_as_tar_gz'' = None
               \<Longrightarrow> R4 w4 = seq (save_simple_attributes d) (save_as_tar_gz d t) w4"
    by (cases r5) (simp_all add: R4_def seq_def call_def ss gm5 gm4 gm3 gm2 g1 gm0)
  have E4b: "\<not> (getattr w ''_save_simple_attributes'' = None \<and> getattr w ''_save_as_tar_gz'' = None)
               \<Longrightarrow> fst (R4 w4) \<noteq> None"
    by (cases r5) (auto simp: R4_def seq_def call_def ss gm5 gm4 gm3 gm2 g1 gm0 split: option.splits)
  have rdy: "save_ready w d \<longleftrightarrow> dir_ok \<and> cpath \<notin> dirs w
       \<and> getattr w ''_make_dest_directory'' = None
       \<and> getattr w ''_save_numpy_attributes'' = None \<and> getattr w ''_get_attributes'' = None
       \<and> getattr w ''_save_pandas_attributes'' = None \<and> getattr w ''_save_complex_attributes'' = None
       \<and> getattr w ''_save_simple_attributes'' = None \<and> getattr w ''_save_as_tar_gz'' = None"
    by (auto simp: save_ready_def dir_ok_def cpath_def)
  have pre: "save_ready w d \<Longrightarrow>
      save L dest dest_tar w = seq (save_simple_attributes d) (save_as_tar_gz d t) w4"
    unfolding rdy using E0a E1a E2a E3a E4a by simp
  have nre: "\<not> save_ready w d \<Longrightarrow> fst (save L dest dest_tar w) \<noteq> None"
  proof -
    assume nr: "\<not> save_ready w d"
    show ?thesis
    proof (cases "getattr w ''_make_dest_directory'' = None \<and> dir_ok")
      case False
      then show ?thesis by (rule E0b)
    next
      case T0: True
      have s0: "save L dest dest_tar w = R1 w1" using E0a T0 by simp
      show ?thesis
      proof (cases "getattr w ''_save_numpy_attributes'' = None \<and> getattr w ''_get_attributes'' = None")
        case False
        then show ?thesis unfolding s0 by (rule E1b)
      next
        case T1: True
        have s1: "R1 w1 = R2 w2" using E1a T1 by simp
        show ?thesis
        proof (cases "getattr w ''_save_pandas_attributes'' = None")
          case False
          then show ?thesis unfolding s0 s1 using E2b by simp
        next
          case T2: True
          have s2: "R2 w2 = R3 w3" using E2a T1 T2 by simp
          show ?thesis
          proof (cases "getattr w ''_save_complex_attributes'' = None \<and> cpath \<notin> dirs w")
            case False
            then show ?thesis unfolding s0 s1 s2 by (rule E3b)
          next
            case T3: True
            have s3: "R3 w3 = R4 w4" using E3a T3 by simp
            have "\<not> (getattr w ''_save_simple_attributes'' = None \<and> getattr w ''_save_as_tar_gz'' = None)"
              using nr T0 T1 T2 T3 unfolding rdy by blast
            then show ?thesis unfolding s0 s1 s2 s3 by (rule E4b)
          qed
        qed
      qed
    qed
  qed
  have d4: "dirs w4 = insert d (dirs w)"
    by (simp add: w4_def w3_def w2_def w1_def w0_def write_file_def set_attr_def)
  have wn4: "warns w4 = warns w"
    by (simp add: w4_def w3_def w2_def w1_def w0_def write_file_def set_attr_def)
  have n2': "\<forall>k. map_of m1 (PStr k) = (if is_nd (pygetattr w k) \<and> res2 k
            then Some (manifest_entry (path_join d (k @ ''.cs'')) ''np.ndarray'') else None)"
    using n2 unfolding nd1 by simp
  have p2': "\<forall>k. map_of m2 (PStr k) = (if is_df (pygetattr w k) \<and> res2 k
            then Some (manifest_entry (path_join d (k @ ''.csv'')) ''pd.DataFrame'') else map_of m1 (PStr k))"
    using p2 unfolding df2 by simp
  have M: "\<forall>k. map_of m2 (PStr k) =
          (if is_nd (pygetattr w k) \<and> res2 k
             then Some (manifest_entry (path_join d (k @ ''.cs'')) ''np.ndarray'')
           else if is_df (pygetattr w k) \<and> res2 k
             then Some (manifest_entry (path_join d (k @ ''.csv'')) ''pd.DataFrame'')
           else None)"
  proof
    fix k
    have "is_nd (pygetattr w k) \<Longrightarrow> \<not> is_df (pygetattr w k)"
      by (auto simp: is_nd_def is_df_def split: option.splits pyval.splits)
    then show "map_of m2 (PStr k) =
          (if is_nd (pygetattr w k) \<and> res2 k
             then Some (manifest_entry (path_join d (k @ ''.cs'')) ''np.ndarray'')
           else if is_df (pygetattr w k) \<and> res2 k
             then Some (manifest_entry (path_join d (k @ ''.csv'')) ''pd.DataFrame'')
           else None)"
      using p2' [rule_format, of k] n2' [rule_format, of k] by simp
  qed
  have f1: "files w1 = files w" by (simp add: w1_def w0_def set_attr_def)
  have f2: "files w2 = fs1" by (simp add: w2_def)
  have F1: "\<forall>p. (\<forall>k. is_nd (pygetattr w k) \<and> res2 k \<longrightarrow> p \<noteq> path_join d (k @ ''.cs'')) \<and>
            (\<forall>k. is_df (pygetattr w k) \<and> res2 k \<longrightarrow> p \<noteq> path_join d (k @ ''.csv''))
          \<longrightarrow> fs2 p = files w p"
  proof (intro allI impI)
    fix p assume a: "(\<forall>k. is_nd (pygetattr w k) \<and> res2 k \<longrightarrow> p \<noteq> path_join d (k @ ''.cs'')) \<and>
            (\<forall>k. is_df (pygetattr w k) \<and> res2 k \<longrightarrow> p \<noteq> path_join d (k @ ''.csv''))"
    have "fs2 p = files w2 p" using p4 [rule_format, of p] a df2 by blast
    moreover have "fs1 p = files w1 p" using n4 [rule_format, of p] a nd1 by blast
    ultimately show "fs2 p = files w p" using f1 f2 by simp
  qed
  have F2: "\<forall>p. files w p \<noteq> None \<longrightarrow> fs2 p \<noteq> None"
    using n6 p6 f1 f2 by auto
  have F3: "\<forall>k. is_nd (pygetattr w k) \<and> res2 k \<longrightarrow> fs2 (path_join d (k @ ''.cs'')) \<noteq> None"
    using n5 p6 f2 nd1 by blast
  have F4: "\<forall>k. is_df (pygetattr w k) \<and> res2 k \<longrightarrow> fs2 (path_join d (k @ ''.csv'')) \<noteq> None"
    using p5 df2 by blast
  have f4: "files w4 = fs2(cpath \<mapsto> FJson (JObj cps))"
    by (simp add: w4_def w3_def write_file_def)
  have a4': "attrs w4 = AList.update ''_complex_attributes'' (PDict m2) (attrs w0)"
    using a4 a3 by simp
  show ?thesis
    apply (rule exI [of _ m2], rule exI [of _ cps], rule exI [of _ fs2], rule exI [of _ w4])
    apply (intro conjI)
    subgoal using a4' by (simp add: w0_def)
    subgoal using M by (simp add: res2_def)
    subgoal using mp .
    subgoal using cps .
    subgoal using F1 by (simp add: res2_def)
    subgoal using F2 .
    subgoal using F3 by (simp add: res2_def)
    subgoal using F4 by (simp add: res2_def)
    subgoal using f4 by (simp add: cpath_def)
    subgoal using d4 .
    subgoal using wn4 .
    subgoal using pre by (simp add: t_def)
    subgoal using nre by simp
    done
qed

lemma save_stages:
  assumes res: "resolve_dest L dest w = Inr d"
    and ok: "save L dest dest_tar w = (None, w')"
  shows "\<exists>m cps sps F w5.
      attrs w' = AList.update ''_complex_attributes'' (PDict m)
                   (attrs (set_attr ''_simple_attributes'' (PDict []) (set_attr ''_complex_attributes'' (PDict []) w)))
    \<and> (\<forall>k. map_of m (PStr k) =
          (if is_nd (pygetattr w k) \<and> k \<notin> {''_complex_attributes'', ''_simple_attributes''}
             then Some (manifest_entry (path_join d (k @ ''.cs'')) ''np.ndarray'')
           else if is_df (pygetattr w k) \<and> k \<notin> {''_complex_attributes'', ''_simple_attributes''}
             then Some (manifest_entry (path_join d (k @ ''.csv'')) ''pd.DataFrame'')
           else None))
    \<and> list_all manifest_pair m
    \<and> to_json_items False m = Inr cps
    \<and> to_json_items True (map (\<lambda>kv. (PStr (fst kv), snd kv)) (attrs w')) = Inr sps
    \<and> (\<forall>p. (\<forall>k. is_nd (pygetattr w k) \<and> k \<notin> {''_complex_attributes'', ''_simple_attributes''}
                 \<longrightarrow> p \<noteq> path_join d (k @ ''.cs'')) \<and>
            (\<forall>k. is_df (pygetattr w k) \<and> k \<notin> {''_complex_attributes'', ''_simple_attributes''}
                 \<longrightarrow> p \<noteq> path_join d (k @ ''.csv''))
          \<longrightarrow> F p = files w p)
    \<and> (\<forall>p. files w p \<noteq> None \<longrightarrow> F p \<noteq> None)
    \<and> (\<forall>k. is_nd (pygetattr w k) \<and> k \<notin> {''_complex_attributes'', ''_simple_attributes''}
            \<longrightarrow> F (path_join d (k @ ''.cs'')) \<noteq> None)
    \<and> (\<forall>k. is_df (pygetattr w k) \<and> k \<notin> {''_complex_attributes'', ''_simple_attributes''}
            \<longrightarrow> F (path_join d (k @ ''.csv'')) \<noteq> None)
    \<and> files w5 = F(path_join d ''complex_attributes.json'' \<mapsto> FJson (JObj cps),
                   path_join d ''simple_attributes.json'' \<mapsto> FJson (JObj sps))
    \<and> dirs w5 = insert d (dirs w) \<and> attrs w5 = attrs w' \<and> warns w5 = warns w
    \<and> w' = write_file (resolve_tar d dest_tar)
              (FTar (tar_members d (resolve_tar d dest_tar) w5) (tar_dirs d w5)) w5"
proof -
  define t where "t = resolve_tar d dest_tar"
  define cpath where "cpath = path_join d ''complex_attributes.json''"
  define spath where "spath = path_join d ''simple_attributes.json''"
  from save_chain [OF res, of dest_tar] show ?thesis
    unfolding t_def [symmetric] cpath_def [symmetric] spath_def [symmetric]
  proof (elim exE conjE)
    fix m cps F w4
    assume a4: "attrs w4 = AList.update ''_complex_attributes'' (PDict m)
                   (attrs (set_attr ''_simple_attributes'' (PDict []) (set_attr ''_complex_attributes'' (PDict []) w)))"
      and M: "\<forall>k. map_of m (PStr k) =
          (if is_nd (pygetattr w k) \<and> k \<notin> {''_complex_attributes'', ''_simple_attributes''}
             then Some (manifest_entry (path_join d (k @ ''.cs'')) ''np.ndarray'')
           else if is_df (pygetattr w k) \<and> k \<notin> {''_complex_attributes'', ''_simple_attributes''}
             then Some (manifest_entry (path_join d (k @ ''.csv'')) ''pd.DataFrame'')
           else None)"
      and mp: "list_all manifest_pair m"
      and cps: "to_json_items False m = Inr cps"
      and F1: "\<forall>p. (\<forall>k. is_nd (pygetattr w k) \<and> k \<notin> {''_complex_attributes'', ''_simple_attributes''}
                 \<longrightarrow> p \<noteq> path_join d (k @ ''.cs'')) \<and>
            (\<forall>k. is_df (pygetattr w k) \<and> k \<notin> {''_complex_attributes'', ''_simple_attributes''}
                 \<longrightarrow> p \<noteq> path_join d (k @ ''.csv''))
          \<longrightarrow> F p = files w p"
      and F2: "\<forall>p. files w p \<noteq> None \<longrightarrow> F p \<noteq> None"
      and F3: "\<forall>k. is_nd (pygetattr w k) \<and> k \<notin> {''_complex_attributes'', ''_simple_attributes''}
            \<longrightarrow> F (path_join d (k @ ''.cs'')) \<noteq> None"
      and F4: "\<forall>k. is_df (pygetattr w k) \<and> k \<notin> {''_complex_attributes'', ''_simple_attributes''}
            \<longrightarrow> F (path_join d (k @ ''.csv'')) \<noteq> None"
      and f4: "files w4 = F(cpath \<mapsto> FJson (JObj cps))"
      and d4: "dirs w4 = insert d (dirs w)"
      and wn4: "warns w4 = warns w"
      and pre0: "save_ready w d \<longrightarrow>
          save L dest dest_tar w = seq (save_simple_attributes d) (save_as_tar_gz d t) w4"
      and nre: "\<not> save_ready w d \<longrightarrow> fst (save L dest dest_tar w) \<noteq> None"
    have rdy: "save_ready w d" using nre ok by auto
    have pre: "save L dest dest_tar w = seq (save_simple_attributes d) (save_as_tar_gz d t) w4"
      using pre0 rdy by simp
    obtain r5 w5 where ss: "save_simple_attributes d w4 = (r5, w5)"
      by (cases "save_simple_attributes d w4")
    have r5: "r5 = None" using ok pre ss by (cases r5) (simp_all add: seq_def)
    then obtain sps where sps: "to_json_items True (map (\<lambda>kv. (PStr (fst kv), snd kv)) (attrs w4)) = Inr sps"
      and w5: "w5 = write_file spath (FJson (JObj sps)) w4"
      using ss
      by (auto simp: save_simple_attributes_def dict_of_attrs_def spath_def Let_def
          split: sum.splits if_splits)
    have d5: "dirs w5 = insert d (dirs w)"
      by (simp add: w5 d4 write_file_def)
    have wn5: "warns w5 = warns w"
      by (simp add: w5 wn4 write_file_def)
    have "fst (save_as_tar_gz d t w5) = None"
      using ok pre ss r5 by (simp add: seq_def)
    then have td: "t \<notin> dirs w5"
      by (auto simp: save_as_tar_gz_def)
    have tar: "save_as_tar_gz d t w5 = (None, write_file t (FTar (tar_members d t w5) (tar_dirs d w5)) w5)"
      using d5 td by (simp add: save_as_tar_gz_def)
    have w': "w' = write_file t (FTar (tar_members d t w5) (tar_dirs d w5)) w5"
      using ok pre ss r5 tar by (simp add: seq_def)
    have a5: "attrs w5 = attrs w'" by (simp add: w' write_file_def)
    have a': "attrs w' = AList.update ''_complex_attributes'' (PDict m)
                   (attrs (set_attr ''_simple_attributes'' (PDict []) (set_attr ''_complex_attributes'' (PDict []) w)))"
      using a5 a4 by (simp add: w5 write_file_def)
    have f5: "files w5 = F(cpath \<mapsto> FJson (JObj cps), spath \<mapsto> FJson (JObj sps))"
      by (simp add: w5 f4 write_file_def)
    have sps': "to_json_items True (map (\<lambda>kv. (PStr (fst kv), snd kv)) (attrs w')) = Inr sps"
      using sps a4 a' by simp
    show "\<exists>m cps sps F w5.
      attrs w' = AList.update ''_complex_attributes'' (PDict m)
                   (attrs (set_attr ''_simple_attributes'' (PDict []) (set_attr ''_complex_attributes'' (PDict []) w)))
    \<and> (\<forall>k. map_of m (PStr k) =
          (if is_nd (pygetattr w k) \<and> k \<notin> {''_complex_attributes'', ''_simple_attributes''}
             then Some (manifest_entry (path_join d (k @ ''.cs'')) ''np.ndarray'')
           else if is_df (pygetattr w k) \<and> k \<notin> {''_complex_attributes'', ''_simple_attributes''}
             then Some (manifest_entry (path_join d (k @ ''.csv'')) ''pd.DataFrame'')
           else None))
    \<and> list_all manifest_pair m
    \<and> to_json_items False m = Inr cps
    \<and> to_json_items True (map (\<lambda>kv. (PStr (fst kv), snd kv)) (attrs w')) = Inr sps
    \<and> (\<forall>p. (\<forall>k. is_nd (pygetattr w k) \<and> k \<notin> {''_complex_attributes'', ''_simple_attributes''}
                 \<longrightarrow> p \<noteq> path_join d (k @ ''.cs'')) \<and>
            (\<forall>k. is_df (pygetattr w k) \<and> k \<notin> {''_complex_attributes'', ''_simple_attributes''}
                 \<longrightarrow> p \<noteq> path_join d (k @ ''.csv''))
          \<longrightarrow> F p = files w p)
    \<and> (\<forall>p. files w p \<noteq> None \<longrightarrow> F p \<noteq> None)
    \<and> (\<forall>k. is_nd (pygetattr w k) \<and> k \<notin> {''_complex_attributes'', ''_simple_attributes''}
            \<longrightarrow> F (path_join d (k @ ''.cs'')) \<noteq> None)
    \<and> (\<forall>k. is_df (pygetattr w k) \<and> k \<notin> {''_complex_attributes'', ''_simple_attributes''}
            \<longrightarrow> F (path_join d (k @ ''.csv'')) \<noteq> None)
    \<and> files w5 = F(cpath \<mapsto> FJson (JObj cps), spath \<mapsto> FJson (JObj sps))
    \<and> dirs w5 = insert d (dirs w) \<and> attrs w5 = attrs w' \<and> warns w5 = warns w
    \<and> w' = write_file t (FTar (tar_members d t w5) (tar_dirs d w5)) w5"
      apply (rule exI [of _ m], rule exI [of _ cps], rule exI [of _ sps], rule exI [of _ F],
          rule exI [of _ w5])
      apply (intro conjI)
      subgoal using a' .
      subgoal using M .
      subgoal using mp .
      subgoal using cps .
      subgoal using sps' .
      subgoal using F1 .
      subgoal using F2 .
      subgoal using F3 .
      subgoal using F4 .
      subgoal using f5 .
      subgoal using d5 .
      subgoal using a5 .
      subgoal using wn5 .
      subgoal using w' .
      done
  qed
qed

subsection \<open>The two manifests of one save\<close>



lemma of_json_obj_distinct:
  "distinct (map fst ps) \<Longrightarrow> PStr ` set (map fst ps) \<inter> fst ` set acc = {} \<Longrightarrow>
     of_json_obj ps acc = acc @ map (\<lambda>p. (PStr (fst p), of_json (snd p))) ps"
proof (induction ps arbitrary: acc)
  case Nil
  then show ?case by simp
next
  case (Cons p ps)
  obtain k j where p: "p = (k, j)" by (cases p)
  have notin: "PStr k \<notin> fst ` set acc" using Cons.prems(2) p by auto
  have u: "AList.update (PStr k) (of_json j) acc = acc @ [(PStr k, of_json j)]"
    using notin by (induction acc) auto
  have d: "distinct (map fst ps)" using Cons.prems(1) by simp
  have "PStr ` set (map fst ps) \<inter> fst ` set (acc @ [(PStr k, of_json j)]) = {}"
    using Cons.prems p by auto
  from Cons.IH [OF d this] show ?case using p u by simp
qed

lemma to_json_items_manifest_lookup:
  "list_all manifest_pair m \<Longrightarrow> to_json_items h m = Inr ps \<Longrightarrow>
     map_of ps k = (case map_of m (PStr k) of None \<Rightarrow> None
                    | Some e \<Rightarrow> (case to_json h e of Inl x \<Rightarrow> None | Inr j \<Rightarrow> Some j))"
proof (induction m arbitrary: ps)
  case Nil
  then show ?case by simp
next
  case (Cons a m)
  then obtain k' f ty where a: "a = (PStr k', manifest_entry f ty)"
    by (auto simp: manifest_pair_def)
  from Cons.prems a obtain ps' where ps': "to_json_items h m = Inr ps'"
    "ps = (k', entry_doc f ty) # ps'"
    by (auto simp: to_json_manifest_entry entry_doc_def split: sum.splits)
  have "list_all manifest_pair m" using Cons.prems by simp
  from Cons.IH [OF this ps'(1)] show ?case
    using a ps' by (simp add: to_json_manifest_entry entry_doc_def)
qed

lemma list_all2_attrs_lookup:
  assumes "list_all2 (\<lambda>kv p. fst p = fst kv \<and> to_json True (snd kv) = Inr (snd p)) al ps"
    and "(k, j) \<in> set ps"
  shows "\<exists>v. (k, v) \<in> set al \<and> to_json True v = Inr j"
  using assms
  by (induction al ps rule: list_all2_induct) auto

lemma list_all2_attrs_keys:
  assumes "list_all2 (\<lambda>kv p. fst p = fst kv \<and> to_json True (snd kv) = Inr (snd p)) al ps"
  shows "map fst ps = map fst al"
  using assms
  by (induction al ps rule: list_all2_induct) auto

lemma path_join_manifests_differ:
  "path_join d ''complex_attributes.json'' \<noteq> path_join d ''simple_attributes.json''"
  by (simp add: path_join_def)

lemma is_nd_not_df: "is_nd g \<Longrightarrow> \<not> is_df g"
  by (auto simp: is_nd_def is_df_def split: option.splits pyval.splits)


lemma save_result:
  assumes res: "resolve_dest L dest w = Inr d"
    and ok: "save L dest dest_tar w = (None, w')"
  shows "\<exists>cm sm F w5.
      (\<forall>k. map_of cm k =
          (if is_nd (pygetattr w' k) then Some (entry_doc (path_join d (k @ ''.cs'')) ''np.ndarray'')
           else if is_df (pygetattr w' k) then Some (entry_doc (path_join d (k @ ''.csv'')) ''pd.DataFrame'')
           else None))
    \<and> list_all2 (\<lambda>kv p. fst p = fst kv \<and> to_json True (snd kv) = Inr (snd p)) (attrs w') sm
    \<and> (\<forall>k. k \<notin> {''_complex_attributes'', ''_simple_attributes''} \<longrightarrow> getattr w' k = getattr w k)
    \<and> (\<exists>m. getattr w' ''_complex_attributes'' = Some (PDict m))
    \<and> getattr w' ''_simple_attributes'' = Some (PDict [])
    \<and> set (map fst (attrs w)) \<subseteq> set (map fst (attrs w'))
    \<and> (distinct (map fst (attrs w)) \<longrightarrow> distinct (map fst (attrs w')))
    \<and> (\<forall>p. (\<forall>k. is_nd (pygetattr w' k) \<longrightarrow> p \<noteq> path_join d (k @ ''.cs'')) \<and>
            (\<forall>k. is_df (pygetattr w' k) \<longrightarrow> p \<noteq> path_join d (k @ ''.csv''))
          \<longrightarrow> F p = files w p)
    \<and> (\<forall>p. files w p \<noteq> None \<longrightarrow> F p \<noteq> None)
    \<and> files w5 = F(path_join d ''complex_attributes.json'' \<mapsto> FJson (JObj cm),
                   path_join d ''simple_attributes.json'' \<mapsto> FJson (JObj sm))
    \<and> dirs w5 = insert d (dirs w) \<and> attrs w5 = attrs w' \<and> warns w5 = warns w
    \<and> w' = write_file (resolve_tar d dest_tar)
              (FTar (tar_members d (resolve_tar d dest_tar) w5) (tar_dirs d w5)) w5"
proof -
  from save_stages [OF res ok] obtain m cps sps F w5 where
    a': "attrs w' = AList.update ''_complex_attributes'' (PDict m)
                   (attrs (set_attr ''_simple_attributes'' (PDict []) (set_attr ''_complex_attributes'' (PDict []) w)))"
    and M: "\<forall>k. map_of m (PStr k) =
          (if is_nd (pygetattr w k) \<and> k \<notin> {''_complex_attributes'', ''_simple_attributes''}
             then Some (manifest_entry (path_join d (k @ ''.cs'')) ''np.ndarray'')
           else if is_df (pygetattr w k) \<and> k \<notin> {''_complex_attributes'', ''_simple_attributes''}
             then Some (manifest_entry (path_join d (k @ ''.csv'')) ''pd.DataFrame'')
           else None)"
    and mp: "list_all manifest_pair m"
    and cps: "to_json_items False m = Inr cps"
    and sps: "to_json_items True (map (\<lambda>kv. (PStr (fst kv), snd kv)) (attrs w')) = Inr sps"
    and F1: "\<forall>p. (\<forall>k. is_nd (pygetattr w k) \<and> k \<notin> {''_complex_attributes'', ''_simple_attributes''}
                 \<longrightarrow> p \<noteq> path_join d (k @ ''.cs'')) \<and>
            (\<forall>k. is_df (pygetattr w k) \<and> k \<notin> {''_complex_attributes'', ''_simple_attributes''}
                 \<longrightarrow> p \<noteq> path_join d (k @ ''.csv''))
          \<longrightarrow> F p = files w p"
    and F2: "\<forall>p. files w p \<noteq> None \<longrightarrow> F p \<noteq> None"
    and f5: "files w5 = F(path_join d ''complex_attributes.json'' \<mapsto> FJson (JObj cps),
                   path_join d ''simple_attributes.json'' \<mapsto> FJson (JObj sps))"
    and rest: "dirs w5 = insert d (dirs w)" "attrs w5 = attrs w'" "warns w5 = warns w"
    and w': "w' = write_file (resolve_tar d dest_tar)
              (FTar (tar_members d (resolve_tar d dest_tar) w5) (tar_dirs d w5)) w5"
    by blast
  have g': "\<And>k. getattr w' k = (if k = ''_complex_attributes'' then Some (PDict m)
              else if k = ''_simple_attributes'' then Some (PDict []) else getattr w k)"
    by (simp add: getattr_def a' set_attr_def update_conv')
  have "\<And>k. is_nd (getattr w' k) = (is_nd (getattr w k) \<and> k \<notin> {''_complex_attributes'', ''_simple_attributes''})"
    and "\<And>k. is_df (getattr w' k) = (is_df (getattr w k) \<and> k \<notin> {''_complex_attributes'', ''_simple_attributes''})"
    by (simp_all add: g' is_nd_def is_df_def)
  then have nd': "\<And>k. is_nd (pygetattr w' k) = (is_nd (pygetattr w k) \<and> k \<notin> {''_complex_attributes'', ''_simple_attributes''})"
    and df': "\<And>k. is_df (pygetattr w' k) = (is_df (pygetattr w k) \<and> k \<notin> {''_complex_attributes'', ''_simple_attributes''})"
    by (auto simp only: is_nd_py is_df_py)
  have names: "set (map fst (attrs w)) \<subseteq> set (map fst (attrs w'))"
    by (auto simp: a' set_attr_def dom_update)
  have dist': "distinct (map fst (attrs w)) \<longrightarrow> distinct (map fst (attrs w'))"
    by (simp add: a' set_attr_def distinct_update)
  have la: "list_all2 (\<lambda>kv p. fst p = fst kv \<and> to_json True (snd kv) = Inr (snd p)) (attrs w') sps"
    using to_json_items_attrs [OF sps] .
  have C: "\<forall>k. map_of cps k =
          (if is_nd (pygetattr w' k) then Some (entry_doc (path_join d (k @ ''.cs'')) ''np.ndarray'')
           else if is_df (pygetattr w' k) then Some (entry_doc (path_join d (k @ ''.csv'')) ''pd.DataFrame'')
           else None)"
    using to_json_items_manifest_lookup [OF mp cps] M
    by (simp add: nd' df' to_json_manifest_entry entry_doc_def)
  have F1': "\<forall>p. (\<forall>k. is_nd (pygetattr w' k) \<longrightarrow> p \<noteq> path_join d (k @ ''.cs'')) \<and>
            (\<forall>k. is_df (pygetattr w' k) \<longrightarrow> p \<noteq> path_join d (k @ ''.csv''))
          \<longrightarrow> F p = files w p"
    using F1 unfolding nd' df' .
  show ?thesis
    apply (rule exI [of _ cps], rule exI [of _ sps], rule exI [of _ F], rule exI [of _ w5])
    apply (intro conjI)
    subgoal using C .
    subgoal using la .
    subgoal by (simp add: g')
    subgoal by (simp add: g')
    subgoal by (simp add: g')
    subgoal using names .
    subgoal using dist' .
    subgoal using F1' .
    subgoal using F2 .
    subgoal using f5 .
    subgoal using rest(1) .
    subgoal using rest(2) .
    subgoal using rest(3) .
    subgoal using w' .
    done
qed

text \<open>
  Claim C7. After a save that completes (on an object whose attribute names are distinct,
  as in any dictionary, and with an archive path that is not one of the manifest files),
  the simple manifest has one entry per attribute and the complex manifest has an entry
  for exactly the attributes that are arrays (tagged \<^verbatim>\<open>np.ndarray\<close>) or tables (tagged
  \<^verbatim>\<open>pd.DataFrame\<close>), one tag each. An attribute of the complex manifest is null in the
  simple manifest, so no name of the complex manifest is among the names the reload of the
  simple manifest assigns.
\<close>

theorem save_classifies_each_attribute_once:
  assumes res: "resolve_dest L dest w = Inr d"
    and ok: "save L dest dest_tar w = (None, w')"
    and tar: "resolve_tar d dest_tar \<notin>
               {path_join d ''complex_attributes.json'', path_join d ''simple_attributes.json''}"
    and dist: "distinct (map fst (attrs w))"
  shows "\<exists>cm sm.
      files w' (path_join d ''complex_attributes.json'') = Some (FJson (JObj cm))
    \<and> files w' (path_join d ''simple_attributes.json'') = Some (FJson (JObj sm))
    \<and> map fst sm = map fst (attrs w')
    \<and> (\<forall>k. map_of cm k =
          (if is_nd (pygetattr w' k) then Some (entry_doc (path_join d (k @ ''.cs'')) ''np.ndarray'')
           else if is_df (pygetattr w' k) then Some (entry_doc (path_join d (k @ ''.csv'')) ''pd.DataFrame'')
           else None))
    \<and> (\<forall>k j. map_of cm k \<noteq> None \<and> (k, j) \<in> set sm \<longrightarrow> j = JNull)
    \<and> (\<forall>k. PStr k \<in> set (simple_reload_names (of_json_obj sm [])) \<longrightarrow> map_of cm k = None)"
proof -
  from save_result [OF res ok] show ?thesis
  proof (elim exE conjE)
    fix cps sps F w5
    assume C: "\<forall>k. map_of cps k =
          (if is_nd (pygetattr w' k) then Some (entry_doc (path_join d (k @ ''.cs'')) ''np.ndarray'')
           else if is_df (pygetattr w' k) then Some (entry_doc (path_join d (k @ ''.csv'')) ''pd.DataFrame'')
           else None)"
      and la: "list_all2 (\<lambda>kv p. fst p = fst kv \<and> to_json True (snd kv) = Inr (snd p)) (attrs w') sps"
      and dist0: "distinct (map fst (attrs w)) \<longrightarrow> distinct (map fst (attrs w'))"
      and f5: "files w5 = F(path_join d ''complex_attributes.json'' \<mapsto> FJson (JObj cps),
                   path_join d ''simple_attributes.json'' \<mapsto> FJson (JObj sps))"
      and w': "w' = write_file (resolve_tar d dest_tar)
              (FTar (tar_members d (resolve_tar d dest_tar) w5) (tar_dirs d w5)) w5"
    have dist': "distinct (map fst (attrs w'))" using dist dist0 by simp
    have tc: "resolve_tar d dest_tar \<noteq> path_join d ''complex_attributes.json''"
      and ts: "resolve_tar d dest_tar \<noteq> path_join d ''simple_attributes.json''"
      using tar by simp_all
    have fw: "files w' = (files w5)(resolve_tar d dest_tar \<mapsto>
        FTar (tar_members d (resolve_tar d dest_tar) w5) (tar_dirs d w5))"
      by (subst w') (simp add: write_file_def)
    have fc: "files w' (path_join d ''complex_attributes.json'') = Some (FJson (JObj cps))"
      using tc path_join_manifests_differ [of d] by (simp add: fw f5)
    have fs: "files w' (path_join d ''simple_attributes.json'') = Some (FJson (JObj sps))"
      using ts by (simp add: fw f5)
    have keys: "map fst sps = map fst (attrs w')"
      using list_all2_attrs_keys [OF la] .
    have N: "\<And>k j. map_of cps k \<noteq> None \<Longrightarrow> (k, j) \<in> set sps \<Longrightarrow> j = JNull"
    proof -
      fix k j assume c: "map_of cps k \<noteq> None" and kj: "(k, j) \<in> set sps"
      from list_all2_attrs_lookup [OF la kj] obtain v where v: "(k, v) \<in> set (attrs w')"
        "to_json True v = Inr j" by blast
      have gv: "getattr w' k = Some v" using v(1) dist' by (simp add: getattr_def)
      have "is_nd (pygetattr w' k) \<or> is_df (pygetattr w' k)"
        using c C [rule_format, of k] by (auto split: if_splits)
      then have "is_nd (getattr w' k) \<or> is_df (getattr w' k)"
        by (simp only: is_nd_py is_df_py) blast
      then have "unencodable v" using gv
        by (auto simp: is_nd_def is_df_def split: pyval.splits)
      then show "j = JNull" using v(2) to_json_unencodable [of v] by simp
    qed
    have dsps: "distinct (map fst sps)" using keys dist' by simp
    have items: "of_json_obj sps [] = map (\<lambda>p. (PStr (fst p), of_json (snd p))) sps"
      using of_json_obj_distinct [OF dsps, of "[]"] by simp
    have R: "\<And>k. PStr k \<in> set (simple_reload_names (of_json_obj sps [])) \<Longrightarrow> map_of cps k = None"
    proof (rule ccontr)
      fix k assume r: "PStr k \<in> set (simple_reload_names (of_json_obj sps []))" and c: "map_of cps k \<noteq> None"
      from r obtain j where j: "(k, j) \<in> set sps" "of_json j \<noteq> PNone"
        by (auto simp: items simple_reload_names_def)
      then show False using N [OF c j(1)] by simp
    qed
    show ?thesis
      apply (rule exI [of _ cps], rule exI [of _ sps])
      apply (intro conjI)
      subgoal using fc .
      subgoal using fs .
      subgoal using keys .
      subgoal using C .
      subgoal using N by blast
      subgoal using R by blast
      done
  qed
qed

lemmas run_save = save_def seq_def call_def make_dest_directory_def save_numpy_attributes_def
  save_pandas_attributes_def getattr_def pygetattr_def record_complex_def setitem_def
  set_attr_def write_file_def path_join_def manifest_entry_def save_complex_attributes_def
  save_simple_attributes_def dict_of_attrs_def save_as_tar_gz_def resolve_dest_def
  resolve_tar_def str_of_def sample_lib_def int_ok_def Let_def

theorem save_classifies_each_attribute_once_witness:
  "resolve_dest sample_lib None simpsons = Inr ''Simpsons''
   \<and> fst (save sample_lib None None simpsons) = None
   \<and> distinct (map fst (attrs simpsons))
   \<and> files (snd (save sample_lib None None simpsons)) ''Simpsons/complex_attributes.json''
       = Some (FJson (JObj [(''bart'', entry_doc ''Simpsons/bart.cs'' ''np.ndarray''),
                            (''lisa'', entry_doc ''Simpsons/lisa.csv'' ''pd.DataFrame'')]))
   \<and> files (snd (save sample_lib None None simpsons)) ''Simpsons/simple_attributes.json''
       = Some (FJson (JObj [(''name'', JStr ''Simpsons''), (''year'', JNull),
            (''years'', JArr [JInt 2020, JInt 2019]), (''bart'', JNull), (''lisa'', JNull),
            (''_complex_attributes'',
               JObj [(''bart'', entry_doc ''Simpsons/bart.cs'' ''np.ndarray''),
                     (''lisa'', entry_doc ''Simpsons/lisa.csv'' ''pd.DataFrame'')]),
            (''_simple_attributes'', JObj [])]))
   \<and> (\<exists>cm sm. files (snd (save sample_lib None None simpsons)) ''Simpsons/complex_attributes.json''
                 = Some (FJson (JObj cm))
         \<and> files (snd (save sample_lib None None simpsons)) ''Simpsons/simple_attributes.json''
                 = Some (FJson (JObj sm))
         \<and> map_of cm ''bart'' \<noteq> None
         \<and> PStr ''bart'' \<notin> set (simple_reload_names (of_json_obj sm [])))"
proof -
  define w' where "w' = snd (save sample_lib None None simpsons)"
  have r: "resolve_dest sample_lib None simpsons = Inr ''Simpsons''"
    by (simp add: resolve_dest_def getattr_def str_of_def simpsons_def)
  have f: "fst (save sample_lib None None simpsons) = None"
    by (simp add: run_save simpsons_def)
  have ok: "save sample_lib None None simpsons = (None, w')"
    unfolding w'_def using f by (cases "save sample_lib None None simpsons") simp
  have p: "path_join ''Simpsons'' ''complex_attributes.json'' = ''Simpsons/complex_attributes.json''"
    "path_join ''Simpsons'' ''simple_attributes.json'' = ''Simpsons/simple_attributes.json''"
    by (simp_all add: path_join_def)
  have t: "resolve_tar ''Simpsons'' None \<notin>
               {path_join ''Simpsons'' ''complex_attributes.json'', path_join ''Simpsons'' ''simple_attributes.json''}"
    unfolding p by (simp add: resolve_tar_def)
  have d: "distinct (map fst (attrs simpsons))" by (simp add: simpsons_def)
  have c: "files w' ''Simpsons/complex_attributes.json''
       = Some (FJson (JObj [(''bart'', entry_doc ''Simpsons/bart.cs'' ''np.ndarray''),
                            (''lisa'', entry_doc ''Simpsons/lisa.csv'' ''pd.DataFrame'')]))"
    unfolding w'_def by (simp add: run_save simpsons_def entry_doc_def)
  have s: "files w' ''Simpsons/simple_attributes.json''
       = Some (FJson (JObj [(''name'', JStr ''Simpsons''), (''year'', JNull),
            (''years'', JArr [JInt 2020, JInt 2019]), (''bart'', JNull), (''lisa'', JNull),
            (''_complex_attributes'',
               JObj [(''bart'', entry_doc ''Simpsons/bart.cs'' ''np.ndarray''),
                     (''lisa'', entry_doc ''Simpsons/lisa.csv'' ''pd.DataFrame'')]),
            (''_simple_attributes'', JObj [])]))"
    unfolding w'_def by (simp add: run_save simpsons_def entry_doc_def)
  have ex: "\<exists>cm sm. files w' ''Simpsons/complex_attributes.json'' = Some (FJson (JObj cm))
         \<and> files w' ''Simpsons/simple_attributes.json'' = Some (FJson (JObj sm))
         \<and> map_of cm ''bart'' \<noteq> None
         \<and> PStr ''bart'' \<notin> set (simple_reload_names (of_json_obj sm []))"
    using save_classifies_each_attribute_once [OF r ok t d, unfolded p]
  proof (elim exE conjE)
    fix cm sm
    assume 1: "files w' ''Simpsons/complex_attributes.json'' = Some (FJson (JObj cm))"
      and 2: "files w' ''Simpsons/simple_attributes.json'' = Some (FJson (JObj sm))"
      and 3: "\<forall>k. PStr k \<in> set (simple_reload_names (of_json_obj sm [])) \<longrightarrow> map_of cm k = None"
    have cm: "cm = [(''bart'', entry_doc ''Simpsons/bart.cs'' ''np.ndarray''),
                            (''lisa'', entry_doc ''Simpsons/lisa.csv'' ''pd.DataFrame'')]"
      using 1 unfolding c by simp
    have 4: "map_of cm ''bart'' \<noteq> None" unfolding cm by simp
    have 5: "PStr ''bart'' \<notin> set (simple_reload_names (of_json_obj sm []))"
    proof
      assume a: "PStr ''bart'' \<in> set (simple_reload_names (of_json_obj sm []))"
      have "map_of cm ''bart'' = None" using 3 [rule_format, OF a] .
      with 4 show False by (rule notE)
    qed
    show ?thesis
      apply (rule exI [of _ cm], rule exI [of _ sm])
      apply (intro conjI)
      subgoal using 1 .
      subgoal using 2 .
      subgoal using 4 .
      subgoal using 5 .
      done
  qed
  show ?thesis
    apply (intro conjI)
    subgoal using r .
    subgoal using f .
    subgoal using d .
    subgoal using c unfolding w'_def .
    subgoal using s unfolding w'_def .
    subgoal using ex unfolding w'_def .
    done
qed

subsection \<open>Saving again into the same directory\<close>







subsection \<open>The attributes a build adds to the object\<close>












lemma names_warn: "attrs (warn x w) = attrs w"
  by (simp add: warn_def)

















lemma fresh_beside_files:
  "files fresh_beside ''s.tar.gz'' \<noteq> None"
  "files fresh_beside ''s/simple_attributes.json''
     = Some (FJson (JObj [(''name'', JStr ''s''), (''year'', JNull), (''years'', JArr [JInt 2020, JInt 2019]),
                          (''_complex_attributes'', JObj []), (''_simple_attributes'', JObj [])]))"
  "files fresh_beside ''s/complex_attributes.json'' = Some (FJson (JObj []))"
  by (simp_all add: fresh_beside_def with_none_def run_save)



subsection \<open>Entries of the complex manifest with an unregistered type tag\<close>


lemma setattr_files: "files (snd (setattr k v w)) = files w"
  by (simp add: setattr_def set_attr_def split: pyval.splits)


lemma reload_simple_items_files: "files (snd (reload_simple_items kvs w)) = files w"
proof (induction kvs arbitrary: w)
  case Nil
  then show ?case by simp
next
  case (Cons kv kvs)
  obtain k v where kv: "kv = (k, v)" by (cases kv)
  obtain r w1 where s1: "setattr k v w = (r, w1)" by (cases "setattr k v w")
  have f1: "files w1 = files w" using setattr_files [of k v w] s1 by simp
  show ?case using kv s1 f1 Cons.IH [of w] Cons.IH [of w1] by (cases r) simp_all
qed


lemma reload_simple_all_files: "files (snd (reload_simple_all L w)) = files w"
  by (simp add: reload_simple_all_def reload_simple_items_files split: option.splits sum.splits)







lemmas run_reload = reload_def seq_def call_def reload_simple_all_def items_of_def
  reload_complex_all_def keys_of_def reload_complex_def getitem_def reload_complex_try_def
  reader_for_def warn_complex_def sample_lib_def setattr_def set_attr_def warn_def getattr_def
  manifest_entry_def



subsection \<open>Reloading twice\<close>

lemma setattr_is_effect: "setattr k v w = apply_effect (setattr_effect k v) w"
  by (simp add: setattr_def setattr_effect_def split: pyval.splits)

lemma assign_then_print:
  "(case setattr k v w of
      (None, w') \<Rightarrow> (if p then (None, w') else (Some ValueError, w'))
    | (Some e, w') \<Rightarrow> (Some e, w'))
     = apply_effects (setattr_effect k v # print_effect p) w"
proof -
  obtain r w1 where s: "apply_effect (setattr_effect k v) w = (r, w1)"
    by (cases "apply_effect (setattr_effect k v) w")
  show ?thesis using s by (cases r) (simp_all add: setattr_is_effect print_effect_def)
qed

lemma assign_then_print_next:
  "(case setattr k v w of
      (None, w') \<Rightarrow> (if p then F w' else (Some ValueError, w'))
    | (Some e, w') \<Rightarrow> (Some e, w'))
     = (case apply_effects (setattr_effect k v # print_effect p) w of
          (None, w') \<Rightarrow> F w'
        | (Some e, w') \<Rightarrow> (Some e, w'))"
proof -
  obtain r w1 where s: "apply_effect (setattr_effect k v) w = (r, w1)"
    by (cases "apply_effect (setattr_effect k v) w")
  show ?thesis using s by (cases r) (simp_all add: setattr_is_effect print_effect_def)
qed

lemma assign_then_print_not_key:
  "fst (apply_effects (setattr_effect k v # print_effect p) w) \<noteq> Some KeyError"
  by (simp add: setattr_effect_def print_effect_def split: pyval.splits)

lemma handler_is_effect:
  "(case (Some e, w) of (Some KeyError, w') \<Rightarrow> warn_complex k fn ft w' | r \<Rightarrow> r)
     = apply_effects (handler_effect e k fn ft) w"
  by (cases e) (simp_all add: handler_effect_def warn_complex_def)

lemma handler_passes:
  assumes "fst r \<noteq> Some KeyError"
  shows "(case r of (Some KeyError, w') \<Rightarrow> warn_complex k fn ft w' | r' \<Rightarrow> r') = r"
proof -
  obtain a b where r: "r = (a, b)" by (cases r)
  show ?thesis
  proof (cases a)
    case None
    then show ?thesis using r by simp
  next
    case (Some e)
    then show ?thesis using r assms by (cases e) simp_all
  qed
qed

text \<open>One call of \<^verbatim>\<open>_reload_complex\<close> is the effect computed from what it reads.\<close>

lemma reload_complex_is_effect:
  "reload_complex L k w
     = apply_effects (complex_effect L (files w) (getattr w ''_complex_attributes'') k) w"
proof (cases "getattr w ''_complex_attributes''")
  case None
  then show ?thesis by (simp add: reload_complex_def complex_effect_def)
next
  case (Some m)
  show ?thesis
  proof (cases "getitem L m k")
    case (Inl e)
    then show ?thesis using Some by (simp add: reload_complex_def complex_effect_def)
  next
    case v: (Inr v)
    show ?thesis
    proof (cases "getitem L v (PStr ''filename'')")
      case (Inl e)
      then show ?thesis using Some v by (simp add: reload_complex_def complex_effect_def)
    next
      case fn: (Inr fn)
      show ?thesis
      proof (cases "getitem L v (PStr ''filetype'')")
        case (Inl e)
        then show ?thesis using Some v fn by (simp add: reload_complex_def complex_effect_def)
      next
        case ft: (Inr ft)
        show ?thesis
        proof (cases "getitem L v (PStr ''fileformat'')")
          case (Inl e)
          then show ?thesis using Some v fn ft
            by (simp add: reload_complex_def complex_effect_def)
        next
          case ff: (Inr ff)
          have l: "reload_complex L k w
              = (case reload_complex_try L k fn ft ff w of
                   (Some KeyError, w') \<Rightarrow> warn_complex k fn ft w' | r \<Rightarrow> r)"
            using Some v fn ft ff by (simp add: reload_complex_def)
          show ?thesis
          proof (cases "reader_for L ft")
            case (Inl e)
            have t: "reload_complex_try L k fn ft ff w = (Some e, w)"
              using Inl by (simp add: reload_complex_try_def)
            show ?thesis unfolding l t handler_is_effect
              using Some v fn ft ff Inl by (simp add: complex_effect_def)
          next
            case func: (Inr func)
            show ?thesis
            proof (cases "func (files w) fn")
              case (Inl e)
              have t: "reload_complex_try L k fn ft ff w = (Some e, w)"
                using func Inl by (simp add: reload_complex_try_def)
              show ?thesis unfolding l t handler_is_effect
                using Some v fn ft ff func Inl by (simp add: complex_effect_def)
            next
              case x: (Inr x)
              define p where "p = (printable ff \<and> printable ft \<and> printable k \<and> printable fn)"
              have t0: "reload_complex_try L k fn ft ff w
                  = (case setattr k x w of
                       (None, w') \<Rightarrow> (if p then (None, w') else (Some ValueError, w'))
                     | (Some e, w') \<Rightarrow> (Some e, w'))"
                using func x unfolding p_def by (simp add: reload_complex_try_def)
              have t: "reload_complex_try L k fn ft ff w
                  = apply_effects (setattr_effect k x # print_effect p) w"
                unfolding t0 by (rule assign_then_print)
              have h: "(case apply_effects (setattr_effect k x # print_effect p) w of
                   (Some KeyError, w') \<Rightarrow> warn_complex k fn ft w' | r \<Rightarrow> r)
                  = apply_effects (setattr_effect k x # print_effect p) w"
                by (rule handler_passes [OF assign_then_print_not_key])
              show ?thesis unfolding l t h
                using Some v fn ft ff func x by (simp add: complex_effect_def p_def)
            qed
          qed
        qed
      qed
    qed
  qed
qed

lemma apply_effect_files: "files (snd (apply_effect eff w)) = files w"
  by (cases eff) (simp_all add: warn_def set_attr_def)

lemma apply_effects_files: "files (snd (apply_effects effs w)) = files w"
proof (induction effs arbitrary: w)
  case Nil
  then show ?case by simp
next
  case (Cons eff effs)
  obtain r w1 where s: "apply_effect eff w = (r, w1)" by (cases "apply_effect eff w")
  have f: "files w1 = files w" using apply_effect_files [of eff w] s by simp
  show ?case using s f Cons [of w1] by (cases r) simp_all
qed

lemma reload_complex_files: "files (snd (reload_complex L k w)) = files w"
  by (simp add: reload_complex_is_effect apply_effects_files)

lemma call_files:
  "files (snd (body w)) = files w \<Longrightarrow> files (snd (call m body w)) = files w"
  by (simp add: call_def split: option.splits)

lemma reload_complex_keys_files: "files (snd (reload_complex_keys L ks w)) = files w"
proof (induction ks arbitrary: w)
  case Nil
  then show ?case by simp
next
  case (Cons k ks)
  obtain r v1 where st: "call ''_reload_complex'' (reload_complex L k) w = (r, v1)"
    by (cases "call ''_reload_complex'' (reload_complex L k) w")
  have "files v1 = files w"
    using call_files [where body = "reload_complex L k" and w = w and m = "''_reload_complex''",
        OF reload_complex_files] st by simp
  then show ?case using st Cons [of v1] by (cases r) simp_all
qed

lemma reload_files: "files (snd (reload L w)) = files w"
proof -
  have c: "files (snd (reload_complex_all L v)) = files v" for v
    by (simp add: reload_complex_all_def reload_complex_keys_files split: option.splits sum.splits)
  obtain r w1 where st: "call ''_reload_simple_all'' (reload_simple_all L) w = (r, w1)"
    by (cases "call ''_reload_simple_all'' (reload_simple_all L) w")
  have f1: "files w1 = files w"
    using call_files [where body = "reload_simple_all L" and w = w
        and m = "''_reload_simple_all''", OF reload_simple_all_files] st by simp
  have f2: "files (snd (call ''_reload_complex_all'' (reload_complex_all L) w1)) = files w1"
    by (rule call_files [OF c])
  show ?thesis using st f1 f2 by (cases r) (simp_all add: reload_def seq_def)
qed

lemma obj_reload_files: "files (snd (obj_reload L w)) = files w"
  unfolding obj_reload_def by (rule call_files [OF reload_files])

text \<open>The invariant under one effect, a list of effects, a call, and the two loops.\<close>

lemma replay_inv_assign:
  "replay_inv a0 afin a b T \<Longrightarrow>
     replay_inv a0 afin (set_attr s v a) (set_attr s v b) (insert s T)"
  by (simp add: replay_inv_def getattr_set_attr files_set_attr)

lemma replay_inv_warn:
  "replay_inv a0 afin a b T \<Longrightarrow> replay_inv a0 afin (warn x a) (warn y b) T"
  by (simp add: replay_inv_def getattr_def warn_def)

lemma replay_inv_replace:
  "replay_inv a0 afin a b T \<Longrightarrow>
     replay_inv a0 afin (a\<lparr>attrs := al\<rparr>) (b\<lparr>attrs := al\<rparr>) UNIV"
  by (simp add: replay_inv_def getattr_def)

lemma replay_inv_binding:
  "replay_inv a0 afin a b T \<Longrightarrow> getattr afin r = getattr a0 r \<Longrightarrow> getattr b r = getattr a r"
  by (simp add: replay_inv_def)

lemma replay_inv_files: "replay_inv a0 afin a b T \<Longrightarrow> files b = files a"
  by (simp add: replay_inv_def)

lemma replay_inv_final: "replay_inv a0 a a b T \<Longrightarrow> getattr b s = getattr a s"
  by (simp add: replay_inv_def)

lemma replay_effect:
  assumes "replay_inv a0 afin a b T"
  shows "fst (apply_effect eff b) = fst (apply_effect eff a)
       \<and> (\<exists>T'. replay_inv a0 afin (snd (apply_effect eff a)) (snd (apply_effect eff b)) T')"
proof (cases eff)
  case (Raise e)
  then show ?thesis using assms by auto
next
  case (Warn x)
  then show ?thesis using replay_inv_warn [OF assms, of x x] by auto
next
  case (Assign s v)
  then show ?thesis using replay_inv_assign [OF assms, of s v] by auto
next
  case (Replace al)
  then show ?thesis using replay_inv_replace [OF assms, of al] by auto
qed

lemma replay_effects:
  assumes "replay_inv a0 afin a b T"
  shows "fst (apply_effects effs b) = fst (apply_effects effs a)
       \<and> (\<exists>T'. replay_inv a0 afin (snd (apply_effects effs a)) (snd (apply_effects effs b)) T')"
  using assms
proof (induction effs arbitrary: a b T)
  case Nil
  then show ?case by auto
next
  case (Cons eff effs)
  from replay_effect [OF Cons.prems, of eff] obtain T' where
    f: "fst (apply_effect eff b) = fst (apply_effect eff a)"
    and i: "replay_inv a0 afin (snd (apply_effect eff a)) (snd (apply_effect eff b)) T'"
    by (elim conjE exE)
  obtain r a' where sa: "apply_effect eff a = (r, a')" by (cases "apply_effect eff a")
  obtain r' b' where sb: "apply_effect eff b = (r', b')" by (cases "apply_effect eff b")
  have rr: "r' = r" using f sa sb by simp
  have i': "replay_inv a0 afin a' b' T'" using i sa sb by simp
  show ?case
  proof (cases r)
    case None
    from Cons.IH [OF i'] show ?thesis using sa sb rr None by simp
  next
    case (Some e)
    then show ?thesis using sa sb rr i' by auto
  qed
qed

lemma replay_call:
  assumes i: "replay_inv a0 afin a b T"
    and m: "getattr afin m = getattr a0 m"
    and body: "fst (body b) = fst (body a)
       \<and> (\<exists>T'. replay_inv a0 afin (snd (body a)) (snd (body b)) T')"
  shows "fst (call m body b) = fst (call m body a)
       \<and> (\<exists>T'. replay_inv a0 afin (snd (call m body a)) (snd (call m body b)) T')"
proof -
  have g: "getattr b m = getattr a m" using replay_inv_binding [OF i m] .
  show ?thesis
  proof (cases "getattr a m")
    case None
    then show ?thesis using g body by (simp add: call_def)
  next
    case (Some v)
    then show ?thesis using g i by (auto simp: call_def)
  qed
qed

lemma replay_reload_simple_items:
  assumes "replay_inv a0 afin a b T"
  shows "fst (reload_simple_items kvs b) = fst (reload_simple_items kvs a)
       \<and> (\<exists>T'. replay_inv a0 afin (snd (reload_simple_items kvs a)) (snd (reload_simple_items kvs b)) T')"
  using assms
proof (induction kvs arbitrary: a b T)
  case Nil
  then show ?case by auto
next
  case (Cons kv kvs)
  obtain k v where kv: "kv = (k, v)" by (cases kv)
  show ?case
  proof (cases "k = PStr ''_complex_attributes'' \<or> k = PStr ''_simple_attributes'' \<or> v = PNone")
    case True
    then show ?thesis using Cons.IH [OF Cons.prems] kv by auto
  next
    case False
    define effs where "effs = setattr_effect k v # print_effect (printable k \<and> printable v)"
    have st0: "reload_simple_items (kv # kvs) u
        = (case setattr k v u of
             (None, u') \<Rightarrow>
               (if printable k \<and> printable v then reload_simple_items kvs u'
                else (Some ValueError, u'))
           | (Some e, u') \<Rightarrow> (Some e, u'))" for u
      using False kv by simp
    have st: "reload_simple_items (kv # kvs) u
        = (case apply_effects effs u of
             (None, u') \<Rightarrow> reload_simple_items kvs u'
           | (Some e, u') \<Rightarrow> (Some e, u'))" for u
      unfolding st0 effs_def by (rule assign_then_print_next)
    from replay_effects [OF Cons.prems, of effs] obtain T' where
      f: "fst (apply_effects effs b) = fst (apply_effects effs a)"
      and i: "replay_inv a0 afin (snd (apply_effects effs a)) (snd (apply_effects effs b)) T'"
      by (elim conjE exE)
    obtain r a' where sa: "apply_effects effs a = (r, a')" by (cases "apply_effects effs a")
    obtain r' b' where sb: "apply_effects effs b = (r', b')" by (cases "apply_effects effs b")
    have rr: "r' = r" using f sa sb by simp
    have i': "replay_inv a0 afin a' b' T'" using i sa sb by simp
    show ?thesis
    proof (cases r)
      case None
      from Cons.IH [OF i'] show ?thesis unfolding st using sa sb rr None by simp
    next
      case (Some e)
      then show ?thesis unfolding st using sa sb rr i' by auto
    qed
  qed
qed

lemma replay_reload_complex:
  assumes i: "replay_inv a0 afin a b T"
    and c: "getattr afin ''_complex_attributes'' = getattr a0 ''_complex_attributes''"
  shows "fst (reload_complex L k b) = fst (reload_complex L k a)
       \<and> (\<exists>T'. replay_inv a0 afin (snd (reload_complex L k a)) (snd (reload_complex L k b)) T')"
proof -
  define effs where "effs = complex_effect L (files a) (getattr a ''_complex_attributes'') k"
  have ea: "reload_complex L k a = apply_effects effs a"
    by (simp add: effs_def reload_complex_is_effect)
  have eb: "reload_complex L k b = apply_effects effs b"
    using replay_inv_binding [OF i c] replay_inv_files [OF i]
    by (simp add: effs_def reload_complex_is_effect)
  show ?thesis unfolding ea eb by (rule replay_effects [OF i])
qed

lemma replay_reload_complex_keys:
  assumes "replay_inv a0 afin a b T"
    and c: "getattr afin ''_complex_attributes'' = getattr a0 ''_complex_attributes''"
    and m: "getattr afin ''_reload_complex'' = getattr a0 ''_reload_complex''"
  shows "fst (reload_complex_keys L ks b) = fst (reload_complex_keys L ks a)
       \<and> (\<exists>T'. replay_inv a0 afin (snd (reload_complex_keys L ks a)) (snd (reload_complex_keys L ks b)) T')"
  using assms(1)
proof (induction ks arbitrary: a b T)
  case Nil
  then show ?case by auto
next
  case (Cons k ks)
  define step where "step = call ''_reload_complex'' (reload_complex L k)"
  from replay_call [where body = "reload_complex L k" and m = "''_reload_complex''",
      OF Cons.prems m replay_reload_complex [OF Cons.prems c]]
  obtain T' where
    f: "fst (step b) = fst (step a)"
    and i: "replay_inv a0 afin (snd (step a)) (snd (step b)) T'"
    unfolding step_def by (elim conjE exE)
  obtain r a' where sa: "step a = (r, a')" by (cases "step a")
  obtain r' b' where sb: "step b = (r', b')" by (cases "step b")
  have rr: "r' = r" using f sa sb by simp
  have i': "replay_inv a0 afin a' b' T'" using i sa sb by simp
  have st: "reload_complex_keys L (k # ks) u
      = (case step u of (None, u') \<Rightarrow> reload_complex_keys L ks u' | (Some e, u') \<Rightarrow> (Some e, u'))"
    for u by (simp add: step_def)
  show ?case
  proof (cases r)
    case None
    from Cons.IH [OF i'] show ?thesis unfolding st using sa sb rr None by simp
  next
    case (Some e)
    then show ?thesis unfolding st using sa sb rr i' by auto
  qed
qed

lemma replay_reload_simple_all:
  assumes i: "replay_inv a0 afin a b T"
    and s: "getattr afin ''_simple_attributes'' = getattr a0 ''_simple_attributes''"
  shows "fst (reload_simple_all L b) = fst (reload_simple_all L a)
       \<and> (\<exists>T'. replay_inv a0 afin (snd (reload_simple_all L a)) (snd (reload_simple_all L b)) T')"
proof -
  have g: "getattr b ''_simple_attributes'' = getattr a ''_simple_attributes''"
    using replay_inv_binding [OF i s] .
  show ?thesis
  proof (cases "getattr a ''_simple_attributes''")
    case None
    then show ?thesis using g i by (auto simp: reload_simple_all_def)
  next
    case (Some m)
    show ?thesis
    proof (cases "items_of L m")
      case (Inl e)
      then show ?thesis using g i Some by (auto simp: reload_simple_all_def)
    next
      case (Inr kvs)
      then show ?thesis using g Some replay_reload_simple_items [OF i, of kvs]
        by (simp add: reload_simple_all_def)
    qed
  qed
qed

lemma replay_reload_complex_all:
  assumes i: "replay_inv a0 afin a b T"
    and c: "getattr afin ''_complex_attributes'' = getattr a0 ''_complex_attributes''"
    and m: "getattr afin ''_reload_complex'' = getattr a0 ''_reload_complex''"
  shows "fst (reload_complex_all L b) = fst (reload_complex_all L a)
       \<and> (\<exists>T'. replay_inv a0 afin (snd (reload_complex_all L a)) (snd (reload_complex_all L b)) T')"
proof -
  have g: "getattr b ''_complex_attributes'' = getattr a ''_complex_attributes''"
    using replay_inv_binding [OF i c] .
  show ?thesis
  proof (cases "getattr a ''_complex_attributes''")
    case None
    then show ?thesis using g i by (auto simp: reload_complex_all_def)
  next
    case (Some d)
    show ?thesis
    proof (cases "keys_of L d")
      case (Inl e)
      then show ?thesis using g i Some by (auto simp: reload_complex_all_def)
    next
      case (Inr ks)
      then show ?thesis using g Some replay_reload_complex_keys [OF i c m, of L ks]
        by (simp add: reload_complex_all_def)
    qed
  qed
qed

lemma replay_reload:
  assumes i: "replay_inv a0 afin a b T"
    and c: "getattr afin ''_complex_attributes'' = getattr a0 ''_complex_attributes''"
    and s: "getattr afin ''_simple_attributes'' = getattr a0 ''_simple_attributes''"
    and m1: "getattr afin ''_reload_simple_all'' = getattr a0 ''_reload_simple_all''"
    and m2: "getattr afin ''_reload_complex_all'' = getattr a0 ''_reload_complex_all''"
    and m3: "getattr afin ''_reload_complex'' = getattr a0 ''_reload_complex''"
  shows "fst (reload L b) = fst (reload L a)
       \<and> (\<exists>T'. replay_inv a0 afin (snd (reload L a)) (snd (reload L b)) T')"
proof -
  define one where "one = call ''_reload_simple_all'' (reload_simple_all L)"
  define two where "two = call ''_reload_complex_all'' (reload_complex_all L)"
  from replay_call [where body = "reload_simple_all L" and m = "''_reload_simple_all''",
      OF i m1 replay_reload_simple_all [OF i s]]
  obtain T1 where
    f: "fst (one b) = fst (one a)"
    and i1: "replay_inv a0 afin (snd (one a)) (snd (one b)) T1"
    unfolding one_def by (elim conjE exE)
  obtain r a' where sa: "one a = (r, a')" by (cases "one a")
  obtain r' b' where sb: "one b = (r', b')" by (cases "one b")
  have rr: "r' = r" using f sa sb by simp
  have i': "replay_inv a0 afin a' b' T1" using i1 sa sb by simp
  have st: "reload L u = seq one two u" for u by (simp add: reload_def one_def two_def)
  show ?thesis
  proof (cases r)
    case None
    from replay_call [where body = "reload_complex_all L" and m = "''_reload_complex_all''",
        OF i' m2 replay_reload_complex_all [OF i' c m3]]
    show ?thesis unfolding st using sa sb rr None by (simp add: seq_def two_def)
  next
    case (Some e)
    then show ?thesis unfolding st using sa sb rr i' by (auto simp: seq_def)
  qed
qed

text \<open>
  Claim C8, as amended. The first \<^verbatim>\<open>obj._reload()\<close> leaves six attributes as it found them
  (absent, if they were absent): the two loaded manifests, and the names of the four
  methods a reload calls, \<^verbatim>\<open>_reload\<close>, \<^verbatim>\<open>_reload_simple_all\<close>, \<^verbatim>\<open>_reload_complex_all\<close> and
  \<^verbatim>\<open>_reload_complex\<close>. The files are unchanged by any reload. Then a second
  \<^verbatim>\<open>obj._reload()\<close> raises what the first raised (nothing, if it completed) and leaves
  every attribute of the object as the first left it.
\<close>

theorem reload_twice_same_attributes:
  assumes "\<forall>r\<in>set reload_reads. getattr (snd (obj_reload L w)) r = getattr w r"
  shows "fst (obj_reload L (snd (obj_reload L w))) = fst (obj_reload L w)
     \<and> (\<forall>k. getattr (snd (obj_reload L (snd (obj_reload L w)))) k
             = getattr (snd (obj_reload L w)) k)
     \<and> files (snd (obj_reload L (snd (obj_reload L w)))) = files w"
proof -
  define w1 where "w1 = snd (obj_reload L w)"
  have h: "\<forall>r\<in>set reload_reads. getattr w1 r = getattr w r"
    using assms by (simp add: w1_def)
  have c: "getattr w1 ''_complex_attributes'' = getattr w ''_complex_attributes''"
    and s: "getattr w1 ''_simple_attributes'' = getattr w ''_simple_attributes''"
    and m0: "getattr w1 ''_reload'' = getattr w ''_reload''"
    and m1: "getattr w1 ''_reload_simple_all'' = getattr w ''_reload_simple_all''"
    and m2: "getattr w1 ''_reload_complex_all'' = getattr w ''_reload_complex_all''"
    and m3: "getattr w1 ''_reload_complex'' = getattr w ''_reload_complex''"
    using h by (simp_all add: reload_reads_def)
  have i: "replay_inv w w1 w w1 {}"
    by (simp add: replay_inv_def w1_def obj_reload_files)
  from replay_call [where body = "reload L" and m = "''_reload''",
      OF i m0 replay_reload [OF i c s m1 m2 m3]]
  obtain T' where
    f: "fst (obj_reload L w1) = fst (obj_reload L w)"
    and i': "replay_inv w w1 (snd (obj_reload L w)) (snd (obj_reload L w1)) T'"
    unfolding obj_reload_def by (elim conjE exE)
  have i'': "replay_inv w w1 w1 (snd (obj_reload L w1)) T'" using i' by (simp add: w1_def)
  have g: "\<And>k. getattr (snd (obj_reload L w1)) k = getattr w1 k"
    using replay_inv_final [OF i''] .
  have fl: "files (snd (obj_reload L w1)) = files w"
    by (simp add: obj_reload_files w1_def)
  show ?thesis
    unfolding w1_def [symmetric]
    using f g fl by simp
qed

theorem reload_twice_same_attributes_witness:
  "getattr (snd (obj_reload sample_lib loaded)) ''_complex_attributes''
      = getattr loaded ''_complex_attributes''
   \<and> getattr (snd (obj_reload sample_lib loaded)) ''_simple_attributes''
      = getattr loaded ''_simple_attributes''
   \<and> getattr (snd (obj_reload sample_lib loaded)) ''_reload'' = getattr loaded ''_reload''
   \<and> getattr (snd (obj_reload sample_lib loaded)) ''_reload_simple_all''
      = getattr loaded ''_reload_simple_all''
   \<and> getattr (snd (obj_reload sample_lib loaded)) ''_reload_complex_all''
      = getattr loaded ''_reload_complex_all''
   \<and> getattr (snd (obj_reload sample_lib loaded)) ''_reload_complex''
      = getattr loaded ''_reload_complex''
   \<and> fst (obj_reload sample_lib loaded) = None
   \<and> getattr loaded ''years'' = None
   \<and> getattr (snd (obj_reload sample_lib loaded)) ''years'' = Some (PList [PInt 2020, PInt 2019])
   \<and> getattr (snd (obj_reload sample_lib loaded)) ''bart''
        = Some (PNdarray [PFloat ''0.0'', PFloat ''1.5''])
   \<and> fst (obj_reload sample_lib (snd (obj_reload sample_lib loaded))) = None
   \<and> getattr (snd (obj_reload sample_lib (snd (obj_reload sample_lib loaded)))) ''years''
        = Some (PList [PInt 2020, PInt 2019])
   \<and> getattr (snd (obj_reload sample_lib (snd (obj_reload sample_lib loaded)))) ''bart''
        = Some (PNdarray [PFloat ''0.0'', PFloat ''1.5''])"
proof -
  define w1 where "w1 = snd (obj_reload sample_lib loaded)"
  have a1: "attrs w1 = [(''name'', PStr ''s''),
               (''_complex_attributes'',
                  PDict [(PStr ''bart'', manifest_entry ''s/bart.cs'' ''np.ndarray'')]),
               (''_simple_attributes'',
                  PDict [(PStr ''name'', PStr ''s''), (PStr ''year'', PNone),
                         (PStr ''years'', PList [PInt 2020, PInt 2019]), (PStr ''bart'', PNone),
                         (PStr ''_complex_attributes'', PDict []),
                         (PStr ''_simple_attributes'', PDict [])]),
               (''years'', PList [PInt 2020, PInt 2019]),
               (''bart'', PNdarray [PFloat ''0.0'', PFloat ''1.5''])]"
    unfolding w1_def by (simp add: loaded_def obj_reload_def run_reload int_ok_def)
  have h1: "getattr w1 ''_complex_attributes'' = getattr loaded ''_complex_attributes''"
    and h2: "getattr w1 ''_simple_attributes'' = getattr loaded ''_simple_attributes''"
    and h3: "getattr w1 ''_reload'' = getattr loaded ''_reload''"
    and h4: "getattr w1 ''_reload_simple_all'' = getattr loaded ''_reload_simple_all''"
    and h5: "getattr w1 ''_reload_complex_all'' = getattr loaded ''_reload_complex_all''"
    and h6: "getattr w1 ''_reload_complex'' = getattr loaded ''_reload_complex''"
    by (simp_all add: getattr_def a1) (simp_all add: loaded_def manifest_entry_def)
  have h: "\<forall>r\<in>set reload_reads. getattr w1 r = getattr loaded r"
    using h1 h2 h3 h4 h5 h6 by (simp add: reload_reads_def)
  have f: "fst (obj_reload sample_lib loaded) = None"
    by (simp add: loaded_def obj_reload_def run_reload int_ok_def)
  have y0: "getattr loaded ''years'' = None" by (simp add: loaded_def getattr_def)
  have y1: "getattr w1 ''years'' = Some (PList [PInt 2020, PInt 2019])"
    by (simp add: getattr_def a1)
  have b1: "getattr w1 ''bart'' = Some (PNdarray [PFloat ''0.0'', PFloat ''1.5''])"
    by (simp add: getattr_def a1)
  note T = reload_twice_same_attributes [OF h [unfolded w1_def], folded w1_def]
  have f2: "fst (obj_reload sample_lib w1) = None" using T f by simp
  have g: "\<And>k. getattr (snd (obj_reload sample_lib w1)) k = getattr w1 k" using T by simp
  show ?thesis
    unfolding w1_def [symmetric]
    apply (intro conjI)
    subgoal using h1 .
    subgoal using h2 .
    subgoal using h3 .
    subgoal using h4 .
    subgoal using h5 .
    subgoal using h6 .
    subgoal using f .
    subgoal using y0 .
    subgoal using y1 .
    subgoal using b1 .
    subgoal using f2 .
    subgoal using g [of "''years''"] y1 by simp
    subgoal using g [of "''bart''"] b1 by simp
    done
qed

text \<open>
  Claim C8 as stated fails. The simple manifest below records \<^verbatim>\<open>x = 1\<close>; the complex
  manifest records arrays under the names \<^verbatim>\<open>x\<close> and \<^verbatim>\<open>_reload_complex_all\<close>, their file
  there. The first reload completes, with \<^verbatim>\<open>x\<close> the array, and leaves both manifests and
  every file as they were; but it has assigned an array to the name
  \<^verbatim>\<open>_reload_complex_all\<close>, which hides the method. The second reload sets \<^verbatim>\<open>x\<close> back to 1
  and then raises \<^verbatim>\<open>TypeError\<close> at the call of \<^verbatim>\<open>_reload_complex_all\<close>: the object ends with
  \<^verbatim>\<open>x = 1\<close>, not with the array.
\<close>

theorem reload_twice_counterexample:
  "getattr (snd (obj_reload sample_lib hidden_loop)) ''_complex_attributes''
      = getattr hidden_loop ''_complex_attributes''
   \<and> getattr (snd (obj_reload sample_lib hidden_loop)) ''_simple_attributes''
      = getattr hidden_loop ''_simple_attributes''
   \<and> files (snd (obj_reload sample_lib hidden_loop)) = files hidden_loop
   \<and> fst (obj_reload sample_lib hidden_loop) = None
   \<and> getattr (snd (obj_reload sample_lib hidden_loop)) ''x''
      = Some (PNdarray [PFloat ''0.0'', PFloat ''1.5''])
   \<and> fst (obj_reload sample_lib (snd (obj_reload sample_lib hidden_loop))) = Some TypeError
   \<and> getattr (snd (obj_reload sample_lib (snd (obj_reload sample_lib hidden_loop)))) ''x''
      = Some (PInt 1)"
proof -
  define w1 where "w1 = snd (obj_reload sample_lib hidden_loop)"
  have e1: "obj_reload sample_lib hidden_loop
      = (None, hidden_loop\<lparr>attrs := attrs hidden_loop
           @ [(''x'', PNdarray [PFloat ''0.0'', PFloat ''1.5'']),
              (''_reload_complex_all'', PNdarray [PFloat ''0.0'', PFloat ''1.5''])]\<rparr>)"
    by (simp add: hidden_loop_def obj_reload_def run_reload int_ok_def)
  have w1: "w1 = hidden_loop\<lparr>attrs := attrs hidden_loop
           @ [(''x'', PNdarray [PFloat ''0.0'', PFloat ''1.5'']),
              (''_reload_complex_all'', PNdarray [PFloat ''0.0'', PFloat ''1.5''])]\<rparr>"
    by (simp add: w1_def e1)
  have c1: "getattr w1 ''_complex_attributes'' = getattr hidden_loop ''_complex_attributes''"
    unfolding w1 by (simp add: hidden_loop_def getattr_def)
  have s1: "getattr w1 ''_simple_attributes'' = getattr hidden_loop ''_simple_attributes''"
    unfolding w1 by (simp add: hidden_loop_def getattr_def)
  have f1: "files w1 = files hidden_loop" unfolding w1 by simp
  have r1: "fst (obj_reload sample_lib hidden_loop) = None" by (simp add: e1)
  have x1: "getattr w1 ''x'' = Some (PNdarray [PFloat ''0.0'', PFloat ''1.5''])"
    unfolding w1 by (simp add: hidden_loop_def getattr_def)
  have r2: "fst (obj_reload sample_lib w1) = Some TypeError"
    unfolding w1 by (simp add: hidden_loop_def obj_reload_def run_reload int_ok_def)
  have x2: "getattr (snd (obj_reload sample_lib w1)) ''x'' = Some (PInt 1)"
    unfolding w1 by (simp add: hidden_loop_def obj_reload_def run_reload int_ok_def)
  show ?thesis
    unfolding w1_def [symmetric]
    apply (intro conjI)
    subgoal using c1 .
    subgoal using s1 .
    subgoal using f1 .
    subgoal using r1 .
    subgoal using x1 .
    subgoal using r2 .
    subgoal using x2 .
    done
qed

subsection \<open>Saving, then building on a fresh object\<close>

















end
